theory Spec2Isabelle
  imports Complex_Main "HOL-Library.Char_ord" "HOL-Library.List_Lexorder" "HOL-Library.Multiset"
begin

section \<open>Numbers and objects of the source language\<close>

text \<open>
  The sources are JavaScript. A JavaScript number is modelled as a real number: sums,
  products, quotients and square roots are the exact ones, so the rounding of IEEE
  doubles is not part of the model (the claims about numeric results are stated up to a
  tolerance). An object used as a dictionary from attribute ids to numbers is a map from
  strings to reals; a missing property reads \<open>None\<close> (JavaScript's undefined).
\<close>

type_synonym profile = "string \<rightharpoonup> real"

text \<open>\<open>x || d\<close> on a number or undefined: the default replaces undefined and 0.\<close>

definition or_default :: "real option \<Rightarrow> real \<Rightarrow> real" where
  "or_default x d = (case x of None \<Rightarrow> d | Some v \<Rightarrow> if v = 0 then d else v)"

section \<open>filmAttributes.js: attributes, movies, ratings, the sample catalogue\<close>

record FilmAttribute =
  attr_id :: string
  attr_name :: string
  attr_type :: string
  description :: string

definition FILM_ATTRIBUTES :: "FilmAttribute list" where
  "FILM_ATTRIBUTES =
    [\<lparr>attr_id = ''action'', attr_name = ''Action'', attr_type = ''genre'',
       description = ''High-energy sequences, physical stunts, and intense pacing''\<rparr>,
     \<lparr>attr_id = ''drama'', attr_name = ''Drama'', attr_type = ''genre'',
       description = ''Character-driven narratives with emotional depth''\<rparr>,
     \<lparr>attr_id = ''comedy'', attr_name = ''Comedy'', attr_type = ''genre'',
       description = ''Humor-focused content designed to entertain and amuse''\<rparr>,
     \<lparr>attr_id = ''dark'', attr_name = ''Dark'', attr_type = ''mood'',
       description = ''Somber, serious tone with mature or heavy themes''\<rparr>,
     \<lparr>attr_id = ''uplifting'', attr_name = ''Uplifting'', attr_type = ''mood'',
       description = ''Positive, inspiring tone that leaves viewers feeling hopeful''\<rparr>,
     \<lparr>attr_id = ''artistic'', attr_name = ''Artistic Vision'', attr_type = ''influence'',
       description =
         ''Strong directorial style, unconventional cinematography, or auteur influence''\<rparr>]"

text \<open>The ids of the fixed attributes, in registry order.\<close>

definition attribute_ids :: "string list" where
  "attribute_ids = map attr_id FILM_ATTRIBUTES"

record Movie =
  movie_id :: string
  title :: string
  year :: nat
  attributes :: profile

text \<open>\<open>Movie.getAttributeScore\<close>: \<open>this.attributes[attributeId] || 0\<close>.\<close>

definition getAttributeScore :: "Movie \<Rightarrow> string \<Rightarrow> real" where
  "getAttributeScore m attributeId = or_default (attributes m attributeId) 0"

record Rating =
  movieId :: string
  userId :: string
  score :: real
  timestamp :: nat

definition mk_movie ::
  "string \<Rightarrow> string \<Rightarrow> nat \<Rightarrow> real \<Rightarrow> real \<Rightarrow> real \<Rightarrow> real \<Rightarrow> real \<Rightarrow> real \<Rightarrow> Movie" where
  "mk_movie i t y a d c k u r =
    \<lparr>movie_id = i, title = t, year = y,
     attributes = map_of [(''action'', a), (''drama'', d), (''comedy'', c),
                          (''dark'', k), (''uplifting'', u), (''artistic'', r)]\<rparr>"

definition movie_1 :: Movie where
  "movie_1 = mk_movie ''movie-1'' ''Mad Max: Fury Road'' 2015
     (95/100) (4/10) (1/10) (7/10) (5/10) (85/100)"

definition movie_3 :: Movie where
  "movie_3 = mk_movie ''movie-3'' ''Superbad'' 2007 (3/10) (4/10) (95/100) (2/10) (7/10) (3/10)"

definition SAMPLE_MOVIES :: "Movie list" where
  "SAMPLE_MOVIES =
    [movie_1,
     mk_movie ''movie-2'' ''The Shawshank Redemption'' 1994 (2/10) 1 (15/100) (6/10) (9/10) (7/10),
     movie_3,
     mk_movie ''movie-4'' ''Blade Runner 2049'' 2017 (6/10) (8/10) (5/100) (85/100) (3/10) (95/100),
     mk_movie ''movie-5'' ''The Grand Budapest Hotel'' 2014 (4/10) (6/10) (7/10) (3/10) (6/10) (9/10),
     mk_movie ''movie-6'' ''Die Hard'' 1988 (9/10) (5/10) (4/10) (4/10) (6/10) (4/10),
     mk_movie ''movie-7'' ''Schindler's List'' 1993 (3/10) 1 0 (95/100) (4/10) (85/100),
     mk_movie ''movie-8'' ''Moonrise Kingdom'' 2012 (2/10) (7/10) (6/10) (2/10) (8/10) (85/100),
     mk_movie ''movie-9'' ''John Wick'' 2014 (95/100) (5/10) (15/100) (7/10) (4/10) (75/100),
     mk_movie ''movie-10'' ''Amelie'' 2001 (1/10) (6/10) (7/10) (2/10) (95/100) (9/10)]"

text \<open>\<open>MOVIE_MAP\<close>: the reduce that stores every sample movie under its id.\<close>

definition MOVIE_MAP :: "string \<rightharpoonup> Movie" where
  "MOVIE_MAP = foldl (\<lambda>m movie. m(movie_id movie \<mapsto> movie)) Map.empty SAMPLE_MOVIES"

section \<open>tasteProfileEngine.js: the fixed-dimension profile builder\<close>

text \<open>\<open>getNeutralProfile\<close>: every attribute set to 0.5.\<close>

definition getNeutralProfile :: profile where
  "getNeutralProfile = foldl (\<lambda>p attr. p(attr_id attr \<mapsto> 1/2)) Map.empty FILM_ATTRIBUTES"

text \<open>
  The accumulators \<open>attributeSums\<close> and \<open>attributeWeights\<close> are objects holding 0 for
  every attribute id; only those ids are ever read or written, so they are modelled as
  total functions that start at 0. \<open>accumulate_rating\<close> is the body of
  \<open>ratings.forEach\<close>: a rating whose movie is not in the map is skipped, any other adds
  to both accumulators for every attribute.
\<close>

type_synonym accumulators = "(string \<Rightarrow> real) \<times> (string \<Rightarrow> real)"

definition accumulate_attribute :: "Movie \<Rightarrow> real \<Rightarrow> accumulators \<Rightarrow> FilmAttribute \<Rightarrow> accumulators" where
  "accumulate_attribute m weight acc attr =
    (let attributeScore = getAttributeScore m (attr_id attr) in
     ((fst acc)(attr_id attr := fst acc (attr_id attr) + attributeScore * weight),
      (snd acc)(attr_id attr := snd acc (attr_id attr) + weight)))"

definition accumulate_rating :: "(string \<rightharpoonup> Movie) \<Rightarrow> accumulators \<Rightarrow> Rating \<Rightarrow> accumulators" where
  "accumulate_rating movieMap acc rating =
    (case movieMap (movieId rating) of
       None \<Rightarrow> acc
     | Some m \<Rightarrow> foldl (accumulate_attribute m (score rating)) acc FILM_ATTRIBUTES)"

definition weighted_sums :: "Rating list \<Rightarrow> (string \<rightharpoonup> Movie) \<Rightarrow> accumulators" where
  "weighted_sums ratings movieMap =
    foldl (accumulate_rating movieMap) (\<lambda>_. 0, \<lambda>_. 0) ratings"

text \<open>The closing loop: the quotient where the weight is positive, else the default.\<close>

definition averages :: "accumulators \<Rightarrow> real \<Rightarrow> profile" where
  "averages acc dflt =
    foldl (\<lambda>p attr. p(attr_id attr \<mapsto>
             (if snd acc (attr_id attr) > 0
              then fst acc (attr_id attr) / snd acc (attr_id attr) else dflt)))
      Map.empty FILM_ATTRIBUTES"

definition calculateTasteProfile :: "Rating list \<Rightarrow> (string \<rightharpoonup> Movie) \<Rightarrow> profile" where
  "calculateTasteProfile ratings movieMap =
    (if ratings = [] then getNeutralProfile
     else averages (weighted_sums ratings movieMap) (1/2))"

section \<open>dataStore.js: the profile of the user data store\<close>

text \<open>
  \<open>UserDataStore.ratings\<close> is a Map from movie id to rating; its values are read in
  insertion order. The store is the list of its entries.
\<close>

record UserDataStore =
  store_userId :: string
  store_ratings :: "(string \<times> Rating) list"

datatype 'a store_result = Success 'a | Failure string

text \<open>\<open>_getEmptyProfile\<close>: every attribute set to 0.\<close>

definition getEmptyProfile :: profile where
  "getEmptyProfile = foldl (\<lambda>p attr. p(attr_id attr \<mapsto> 0)) Map.empty FILM_ATTRIBUTES"

text \<open>
  \<open>getTasteProfile\<close> reads the ratings of the store and the module's \<open>MOVIE_MAP\<close>
  (a parameter here). Nothing in its try block can throw on these values, so the
  failure branch of the source is never taken.
\<close>

definition getTasteProfile :: "UserDataStore \<Rightarrow> (string \<rightharpoonup> Movie) \<Rightarrow> profile store_result" where
  "getTasteProfile store movieMap =
    (let ratingsArray = map snd (store_ratings store) in
     if ratingsArray = [] then Success getEmptyProfile
     else Success (averages (weighted_sums ratingsArray movieMap) 0))"

section \<open>tasteProfileEngine.js: similarity and ranking\<close>





record scored_movie =
  movie :: Movie
  similarity :: real


section \<open>The fixed-dimension engine in the words of the specification\<close>






definition empty_store :: UserDataStore where
  "empty_store = \<lparr>store_userId = ''default-user'', store_ratings = []\<rparr>"




section \<open>Values shared by the server-side modules\<close>

text \<open>
  Truthiness of a nullable column or optional field: \<open>null\<close>, \<open>undefined\<close>, the number
  0 and the empty string are falsy.
\<close>

definition truthy_int :: "int option \<Rightarrow> bool" where
  "truthy_int x = (case x of None \<Rightarrow> False | Some n \<Rightarrow> n \<noteq> 0)"

definition truthy_str :: "string option \<Rightarrow> bool" where
  "truthy_str x = (case x of None \<Rightarrow> False | Some s \<Rightarrow> s \<noteq> [])"

text \<open>\<open>Array.prototype.join\<close> on strings.\<close>

fun join :: "string \<Rightarrow> string list \<Rightarrow> string" where
  "join sep [] = []"
| "join sep [x] = x"
| "join sep (x # y # ys) = x @ sep @ join sep (y # ys)"

text \<open>The decimal text of an integer, as a template literal prints it.\<close>

definition digit_char :: "nat \<Rightarrow> char" where
  "digit_char n = ''0123456789'' ! n"

function digits_of :: "nat \<Rightarrow> string" where
  "digits_of n =
    (if 10 \<le> n then digits_of (n div 10) @ [digit_char (n mod 10)] else [digit_char n])"
  by pat_completeness auto
termination
  by (relation "measure id") auto

declare digits_of.simps [simp del]

definition text_of_int :: "int \<Rightarrow> string" where
  "text_of_int i = (if 0 \<le> i then digits_of (nat i) else CHR ''-'' # digits_of (nat (- i)))"

text \<open>\<open>`${Math.floor(year / 10) * 10}s`\<close>.\<close>

definition decade_label :: "int \<Rightarrow> string" where
  "decade_label y = text_of_int ((y div 10) * 10) @ ''s''"

text \<open>
  \<open>Number.prototype.toFixed(2)\<close> read back by \<open>parseFloat\<close>: the nearest multiple of
  0.01, a tie going away from zero.
\<close>

definition toFixed2 :: "real \<Rightarrow> real" where
  "toFixed2 x =
    (if x < 0 then - (real_of_int \<lfloor>(- x) * 100 + 1/2\<rfloor> / 100)
     else real_of_int \<lfloor>x * 100 + 1/2\<rfloor> / 100)"

text \<open>An exception that leaves a function: the promise of an async function rejects.\<close>

datatype js_error = TypeError | DatabaseError | OracleError

text \<open>The options of a recommendation request.\<close>

record options =
  mood :: "string option"
  genre_filter :: "string list option"
  era_filter :: "string option"
  count :: "nat option"

text \<open>
  What a call can observe of its environment: the clock, whether the INSERT into the
  recommendations table fails, and whether the first write to the taste_profile table
  fails. Every other statement sent to the database is taken to succeed.
\<close>

record env =
  now :: nat
  cache_write_fails :: bool
  profile_write_fails :: bool

definition DEFAULT_COUNT :: nat where "DEFAULT_COUNT = 10"
definition MAX_COUNT :: nat where "MAX_COUNT = 50"

text \<open>\<open>Math.min(options.count || DEFAULT_COUNT, MAX_COUNT)\<close>.\<close>

definition effective_count :: "options \<Rightarrow> nat" where
  "effective_count opts =
    min (case count opts of None \<Rightarrow> DEFAULT_COUNT
         | Some n \<Rightarrow> if n = 0 then DEFAULT_COUNT else n) MAX_COUNT"

section \<open>worker/src/recommendations.js\<close>

text \<open>
  A row of the \<open>movies\<close> table with the columns this module reads. \<open>genres\<close> and
  \<open>plot_keywords\<close> hold JSON arrays of strings; the model keeps them parsed.
\<close>

record worker_movie =
  w_id :: nat
  w_imdb_id :: string
  w_title :: string
  w_year :: int
  w_runtime_minutes :: "int option"
  w_genres :: "string list option"
  w_director :: "string option"
  w_overview :: "string option"
  w_plot_keywords :: "string list option"
  w_user_rating :: "int option"

record director_affinity =
  d_name :: string
  d_count :: nat
  d_avg_rating :: real

text \<open>
  The taste profile of the discovered variant. \<open>genres\<close> and \<open>eras\<close> are objects from
  names to scores, kept as association lists in key order.
\<close>

record worker_profile =
  p_genres :: "(string \<times> real) list"
  p_eras :: "(string \<times> real) list"
  p_themes :: "string list"
  p_runtime_preference :: string
  p_directors :: "director_affinity list"
  p_sample_size :: nat
  p_confidence :: real

text \<open>
  A row of \<open>taste_profile\<close>. The \<open>metadata\<close> column is JSON text; the model keeps the
  parsed value, in the shapes that \<open>calculateTasteProfile\<close> writes.
\<close>

datatype metadata =
  MetaScores "(string \<times> real) list"
| MetaThemes "string list"
| MetaPreference string
| MetaDirectors "director_affinity list"

record worker_profile_row =
  tp_dimension_name :: string
  tp_dimension_value :: real
  tp_sample_size :: nat
  tp_metadata :: "metadata option"

text \<open>
  A row of the \<open>recommendations\<close> table. Timestamps are numbers in the model; the
  textual comparison of the stored ISO string with SQLite's \<open>datetime("now")\<close> is not
  modelled.
\<close>

record worker_cache_row =
  c_recommended_movie_ids :: "nat list"
  c_reasoning :: string
  c_context :: string
  c_confidence_score :: real
  c_expires_at :: nat
  c_created_at :: nat

record worker_db =
  db_movies :: "worker_movie list"
  db_taste_profile :: "worker_profile_row list"
  db_recommendations :: "worker_cache_row list"

text \<open>
  \<open>loadTasteProfile\<close>. A row whose metadata has another shape than the one its
  dimension name announces leaves the profile as it is.
\<close>

definition default_worker_profile :: worker_profile where
  "default_worker_profile =
    \<lparr>p_genres = [], p_eras = [], p_themes = [], p_runtime_preference = ''medium'',
     p_directors = [], p_sample_size = 0, p_confidence = 0\<rparr>"

definition load_profile_row :: "worker_profile \<Rightarrow> worker_profile_row \<Rightarrow> worker_profile" where
  "load_profile_row p row =
    (if tp_dimension_name row = ''genres'' \<and> tp_metadata row \<noteq> None then
       (case tp_metadata row of
          Some (MetaScores g) \<Rightarrow> p\<lparr>p_genres := g, p_sample_size := tp_sample_size row\<rparr>
        | _ \<Rightarrow> p)
     else if tp_dimension_name row = ''eras'' \<and> tp_metadata row \<noteq> None then
       (case tp_metadata row of Some (MetaScores e) \<Rightarrow> p\<lparr>p_eras := e\<rparr> | _ \<Rightarrow> p)
     else if tp_dimension_name row = ''themes'' \<and> tp_metadata row \<noteq> None then
       (case tp_metadata row of Some (MetaThemes t) \<Rightarrow> p\<lparr>p_themes := t\<rparr> | _ \<Rightarrow> p)
     else if tp_dimension_name row = ''runtime_preference'' \<and> tp_metadata row \<noteq> None then
       (case tp_metadata row of
          Some (MetaPreference pref) \<Rightarrow>
            p\<lparr>p_runtime_preference := pref, p_confidence := tp_dimension_value row\<rparr>
        | _ \<Rightarrow> p)
     else if tp_dimension_name row = ''directors'' \<and> tp_metadata row \<noteq> None then
       (case tp_metadata row of Some (MetaDirectors d) \<Rightarrow> p\<lparr>p_directors := d\<rparr> | _ \<Rightarrow> p)
     else p)"

definition worker_loadTasteProfile :: "worker_db \<Rightarrow> worker_profile option" where
  "worker_loadTasteProfile db =
    (if db_taste_profile db = [] then None
     else Some (foldl load_profile_row default_worker_profile (db_taste_profile db)))"

text \<open>
  \<open>getCachedRecommendations\<close>: the unexpired rows of the context, newest first, and
  the first of them. Among rows created at the same instant the model takes the one
  inserted first.
\<close>

definition getCachedRecommendations :: "worker_db \<Rightarrow> nat \<Rightarrow> string \<Rightarrow> worker_cache_row option" where
  "getCachedRecommendations db t ctx =
    (case sort_key (\<lambda>r. - int (c_created_at r))
            (filter (\<lambda>r. c_context r = ctx \<and> c_expires_at r > t) (db_recommendations db)) of
       [] \<Rightarrow> None
     | r # _ \<Rightarrow> Some r)"

definition era_matches :: "string \<Rightarrow> int \<Rightarrow> bool" where
  "era_matches era y =
    (if era = ''classic'' then y < 1980
     else if era = ''modern'' then y \<ge> 1980 \<and> y < 2010
     else if era = ''recent'' then y \<ge> 2010
     else True)"

text \<open>
  \<open>applyFilters\<close>: the genre filter keeps a movie when one of the requested genres is
  among its genres; the era filter compares the year with the bucket boundaries.
\<close>

definition applyFilters :: "worker_movie list \<Rightarrow> options \<Rightarrow> worker_movie list" where
  "applyFilters movies opts =
    (let filtered = movies;
         filtered =
           (case genre_filter opts of
              None \<Rightarrow> filtered
            | Some gs \<Rightarrow>
                if gs \<noteq> [] then
                  filter (\<lambda>m. case w_genres m of
                                 None \<Rightarrow> False
                               | Some genres \<Rightarrow> list_ex (\<lambda>g. g \<in> set genres) gs)
                    filtered
                else filtered);
         filtered =
           (case era_filter opts of
              None \<Rightarrow> filtered
            | Some era \<Rightarrow>
                if era \<noteq> [] then filter (\<lambda>m. era_matches era (w_year m)) filtered
                else filtered)
     in filtered)"

text \<open>
  \<open>calculateBasicMatchScore\<close>. A movie whose genre array is empty makes the genre score
  0/0, NaN in the source; the division of the model gives 0 there.
\<close>

definition genre_factor :: "worker_movie \<Rightarrow> worker_profile \<Rightarrow> real option" where
  "genre_factor m p =
    (case w_genres m of
       None \<Rightarrow> None
     | Some genres \<Rightarrow>
         if p_genres p \<noteq> [] then
           Some (foldl (\<lambda>sum g. sum + or_default (map_of (p_genres p) g) 0) 0 genres
                   / real (length genres))
         else None)"

definition era_factor :: "worker_movie \<Rightarrow> worker_profile \<Rightarrow> real option" where
  "era_factor m p =
    (if w_year m \<noteq> 0 \<and> p_eras p \<noteq> [] then
       Some (or_default (map_of (p_eras p) (decade_label (w_year m))) 0)
     else None)"

definition runtime_factor :: "worker_movie \<Rightarrow> worker_profile \<Rightarrow> real option" where
  "runtime_factor m p =
    (case w_runtime_minutes m of
       None \<Rightarrow> None
     | Some rt \<Rightarrow>
         if rt \<noteq> 0 \<and> p_runtime_preference p \<noteq> [] then
           Some (if p_runtime_preference p = ''short'' \<and> rt < 90 then 1
                 else if p_runtime_preference p = ''medium'' \<and> rt \<ge> 90 \<and> rt \<le> 150 then 1
                 else if p_runtime_preference p = ''long'' \<and> rt > 150 then 1
                 else 3/10)
         else None)"

definition add_factor :: "real \<times> nat \<Rightarrow> real option \<Rightarrow> real \<times> nat" where
  "add_factor acc x = (case x of None \<Rightarrow> acc | Some v \<Rightarrow> (fst acc + v, snd acc + 1))"

definition calculateBasicMatchScore :: "worker_movie \<Rightarrow> worker_profile \<Rightarrow> real" where
  "calculateBasicMatchScore m p =
    (let acc = (0, 0);
         acc = add_factor acc (genre_factor m p);
         acc = add_factor acc (era_factor m p);
         acc = add_factor acc (runtime_factor m p)
     in if snd acc > 0 then fst acc / real (snd acc) else 1/2)"

text \<open>\<open>generateBasicReasoning\<close>.\<close>

definition generateBasicReasoning :: "worker_movie \<Rightarrow> worker_profile \<Rightarrow> string" where
  "generateBasicReasoning m p =
    (let reasons =
           (case w_genres m of
              None \<Rightarrow> []
            | Some genres \<Rightarrow>
                (case find (\<lambda>g. case map_of (p_genres p) g of None \<Rightarrow> False | Some v \<Rightarrow> v > 1/2)
                        genres of
                   None \<Rightarrow> []
                 | Some topGenre \<Rightarrow> [''matches your love of '' @ topGenre]))
           @ (if w_year m \<noteq> 0 \<and>
                 (case map_of (p_eras p) (decade_label (w_year m)) of
                    None \<Rightarrow> False | Some v \<Rightarrow> v > 1/2)
              then [''from your favorite era ('' @ decade_label (w_year m) @ '')'']
              else [])
           @ (case w_director m of
                None \<Rightarrow> []
              | Some director \<Rightarrow>
                  if director \<noteq> [] then
                    (case find (\<lambda>d. d_name d = director) (p_directors p) of
                       None \<Rightarrow> []
                     | Some favoriteDirector \<Rightarrow>
                         [''directed by '' @ director @ '' (you've loved ''
                            @ digits_of (d_count favoriteDirector) @ '' films)''])
                  else [])
     in if reasons = [] then ''Similar to movies in your collection''
        else ''Recommended because it '' @ join '' and '' reasons)"

text \<open>
  The ranking oracle. \<open>rankWithAI\<close> sends a prompt to the model, takes the bracketed
  part of the reply and parses it as JSON. The model abstracts what comes back:
  \<open>OracleFailed\<close> when the call throws, the reply has no bracketed part or the part is
  not JSON; otherwise the parsed array. An element of the array is \<open>null\<close>, or a value
  whose \<open>title\<close> and \<open>reasoning\<close> properties are strings or missing.
\<close>

datatype ranking = RankNull | Ranking "string option" "string option"

datatype oracle_reply = OracleFailed | OracleRankings "ranking list"

record ranked =
  rk_movie :: worker_movie
  rk_reasoning :: "string option"

text \<open>
  Reading \<open>r.title\<close> of a \<open>null\<close> element throws inside the try block, so the whole
  call returns \<open>null\<close>. A title that no candidate has gives a \<open>null\<close> entry of the
  result.
\<close>

definition rank_entry :: "worker_movie list \<Rightarrow> ranking \<Rightarrow> ranked option" where
  "rank_entry candidates r =
    (case r of
       RankNull \<Rightarrow> None
     | Ranking t reasoning \<Rightarrow>
         (case find (\<lambda>c. Some (w_title c) = t) candidates of
            None \<Rightarrow> None
          | Some m \<Rightarrow> Some \<lparr>rk_movie = m, rk_reasoning = reasoning\<rparr>))"

definition rankWithAI :: "oracle_reply \<Rightarrow> worker_movie list \<Rightarrow> ranked option list option" where
  "rankWithAI reply candidates =
    (case reply of
       OracleFailed \<Rightarrow> None
     | OracleRankings rankings \<Rightarrow>
         if list_ex (\<lambda>r. r = RankNull) rankings then None
         else Some (map (rank_entry candidates) rankings))"

record worker_recommendation =
  rec_movie :: worker_movie
  rec_match_score :: real
  rec_reasoning :: "string option"

record worker_result =
  r_error :: "string option"
  r_recommendations :: "worker_recommendation list"
  r_profile_confidence :: "real option"
  r_cached :: "bool option"
  r_ai_powered :: "bool option"
  r_created_at :: "nat option"

text \<open>The cache key: mood, genres, era and count joined by \<open>|\<close>.\<close>

definition worker_context :: "options \<Rightarrow> nat \<Rightarrow> string" where
  "worker_context opts n =
    join ''|''
      [(case mood opts of None \<Rightarrow> ''any'' | Some m \<Rightarrow> if m = [] then ''any'' else m),
       (case genre_filter opts of
          None \<Rightarrow> ''all''
        | Some gs \<Rightarrow> if join '','' gs = [] then ''all'' else join '','' gs),
       (case era_filter opts of None \<Rightarrow> ''all'' | Some e \<Rightarrow> if e = [] then ''all'' else e),
       digits_of n]"

text \<open>
  The mapping over the oracle's ranking, \<open>aiRanked.slice(0, count).map(...)\<close>: reading
  \<open>r.movie\<close> of a \<open>null\<close> entry throws a TypeError that nothing catches.
\<close>

fun ai_recommendations :: "nat \<Rightarrow> ranked option list \<Rightarrow> js_error + worker_recommendation list" where
  "ai_recommendations i [] = Inr []"
| "ai_recommendations i (None # rs) = Inl TypeError"
| "ai_recommendations i (Some r # rs) =
    (case ai_recommendations (i + 1) rs of
       Inl e \<Rightarrow> Inl e
     | Inr recs \<Rightarrow>
         Inr (\<lparr>rec_movie = rk_movie r, rec_match_score = toFixed2 (1 - real i * (5/100)),
               rec_reasoning = rk_reasoning r\<rparr> # recs))"

record scored_candidate =
  sc_movie :: worker_movie
  sc_score :: real

text \<open>
  The diversity pass. \<open>genreCounts\<close> is an object from genre to count; a missing entry
  and 0 are both falsy, so it is a total function that starts at 0. The primary genre
  of an empty genre array is \<open>undefined\<close>, which as a property key is the text
  \<open>undefined\<close>.
\<close>

definition primary_genre :: "string list \<Rightarrow> string" where
  "primary_genre genres = (case genres of [] \<Rightarrow> ''undefined'' | g # _ \<Rightarrow> g)"

definition genre_cap :: "nat \<Rightarrow> nat" where
  "genre_cap n = nat \<lceil>real n / 3\<rceil>"

type_synonym diversity_state =
  "(string \<Rightarrow> nat) \<times> worker_recommendation list \<times> worker_recommendation list"

definition diversity_step :: "nat \<Rightarrow> diversity_state \<Rightarrow> worker_recommendation \<Rightarrow> diversity_state" where
  "diversity_step n st rec =
    (case st of (genreCounts, diversified, backup) \<Rightarrow>
      (case w_genres (rec_movie rec) of
         None \<Rightarrow> (genreCounts, diversified @ [rec], backup)
       | Some genres \<Rightarrow>
           (let primaryGenre = primary_genre genres in
            if genreCounts primaryGenre = 0 \<or> genreCounts primaryGenre < genre_cap n
            then (genreCounts(primaryGenre := genreCounts primaryGenre + 1),
                  diversified @ [rec], backup)
            else (genreCounts, diversified, backup @ [rec]))))"

text \<open>\<open>while (diversified.length < count && backup.length > 0)\<close>.\<close>

fun fill_from_backup ::
  "nat \<Rightarrow> worker_recommendation list \<Rightarrow> worker_recommendation list \<Rightarrow> worker_recommendation list" where
  "fill_from_backup n diversified [] = diversified"
| "fill_from_backup n diversified (b # backup) =
    (if length diversified < n then fill_from_backup n (diversified @ [b]) backup
     else diversified)"

definition diversify :: "nat \<Rightarrow> worker_recommendation list \<Rightarrow> worker_recommendation list" where
  "diversify n recommendations =
    (case foldl (diversity_step n) (\<lambda>_. 0, [], []) recommendations of
       (genreCounts, diversified, backup) \<Rightarrow> fill_from_backup n diversified backup)"

definition CACHE_EXPIRY_HOURS :: nat where "CACHE_EXPIRY_HOURS = 24"

text \<open>The INSERT of the cache row, wrapped in try and catch: a failure is only logged.\<close>

definition worker_cache_write ::
  "worker_db \<Rightarrow> env \<Rightarrow> worker_cache_row \<Rightarrow> worker_db" where
  "worker_cache_write db e row =
    (if cache_write_fails e then db
     else db\<lparr>db_recommendations := db_recommendations db @ [row]\<rparr>)"

definition cached_recommendations ::
  "worker_db \<Rightarrow> worker_cache_row \<Rightarrow> nat \<Rightarrow> worker_recommendation list" where
  "cached_recommendations db cached n =
    map (\<lambda>(i, m). \<lparr>rec_movie = m, rec_match_score = 1 - real i * (5/100),
                     rec_reasoning = Some (c_reasoning cached)\<rparr>)
      (enumerate 0
        (List.map_filter (\<lambda>mid. find (\<lambda>m. w_id m = mid) (db_movies db))
           (take n (c_recommended_movie_ids cached))))"

text \<open>
  The stages of a fresh computation: the unrated movies that pass the filters, their
  scores in descending order, and the choice between the oracle's ranking and the
  locally scored one.
\<close>

definition unrated_candidates :: "worker_db \<Rightarrow> options \<Rightarrow> worker_movie list" where
  "unrated_candidates db opts =
    (let allMovies = db_movies db;
         unrated = filter (\<lambda>m. \<not> truthy_int (w_user_rating m)) allMovies
     in applyFilters unrated opts)"

definition score_candidates :: "worker_movie list \<Rightarrow> worker_profile \<Rightarrow> scored_candidate list" where
  "score_candidates filtered profile =
    sort_key (\<lambda>s. - sc_score s)
      (map (\<lambda>m. \<lparr>sc_movie = m, sc_score = calculateBasicMatchScore m profile\<rparr>) filtered)"

definition fallback_recommendations ::
  "scored_candidate list \<Rightarrow> worker_profile \<Rightarrow> nat \<Rightarrow> worker_recommendation list" where
  "fallback_recommendations scored profile n =
    map (\<lambda>s. \<lparr>rec_movie = sc_movie s, rec_match_score = toFixed2 (sc_score s),
                rec_reasoning = Some (generateBasicReasoning (sc_movie s) profile)\<rparr>)
      (take n scored)"

definition oracle_usable :: "ranked option list option \<Rightarrow> bool" where
  "oracle_usable aiRanked = (case aiRanked of None \<Rightarrow> False | Some rs \<Rightarrow> rs \<noteq> [])"

definition choose_recommendations ::
  "ranked option list option \<Rightarrow> scored_candidate list \<Rightarrow> worker_profile \<Rightarrow> nat \<Rightarrow>
     js_error + worker_recommendation list" where
  "choose_recommendations aiRanked scored profile n =
    (case aiRanked of
       None \<Rightarrow> Inr (fallback_recommendations scored profile n)
     | Some rs \<Rightarrow>
         if rs \<noteq> [] then ai_recommendations 0 (take n rs)
         else Inr (fallback_recommendations scored profile n))"

definition worker_generateRecommendations ::
  "worker_db \<Rightarrow> oracle_reply \<Rightarrow> env \<Rightarrow> options \<Rightarrow> (js_error + worker_result) \<times> worker_db" where
  "worker_generateRecommendations db reply e opts =
    (let n = effective_count opts in
     case worker_loadTasteProfile db of
       None \<Rightarrow>
         (Inr \<lparr>r_error = Some ''No taste profile found. Please calculate taste profile first.'',
                r_recommendations = [], r_profile_confidence = None, r_cached = None,
                r_ai_powered = None, r_created_at = None\<rparr>, db)
     | Some profile \<Rightarrow>
        (let ctx = worker_context opts n in
         case getCachedRecommendations db (now e) ctx of
           Some cached \<Rightarrow>
             (Inr \<lparr>r_error = None,
                    r_recommendations = cached_recommendations db cached n,
                    r_profile_confidence = Some (p_confidence profile), r_cached = Some True,
                    r_ai_powered = None, r_created_at = Some (c_created_at cached)\<rparr>, db)
         | None \<Rightarrow>
            (let filtered = unrated_candidates db opts
             in if filtered = [] then
                  (Inr \<lparr>r_error = Some ''No movies match the specified filters'',
                         r_recommendations = [], r_profile_confidence = None, r_cached = None,
                         r_ai_powered = None, r_created_at = None\<rparr>, db)
                else
                  (let scored = score_candidates filtered profile;
                       topCandidates = map sc_movie (take (min 50 (length scored)) scored);
                       aiRanked = rankWithAI reply topCandidates;
                       ai_powered = oracle_usable aiRanked
                   in case choose_recommendations aiRanked scored profile n of
                        Inl err \<Rightarrow> (Inl err, db)
                      | Inr recommendations \<Rightarrow>
                          (let reasoning =
                                 (if ai_powered
                                  then ''AI-powered recommendations based on your taste profile''
                                  else ''Recommendations based on genre and era preferences'');
                               diversified = diversify n recommendations;
                               movieIds = map (\<lambda>r. w_id (rec_movie r)) diversified;
                               expiresAt = now e + CACHE_EXPIRY_HOURS * 60 * 60 * 1000;
                               db' = worker_cache_write db e
                                       \<lparr>c_recommended_movie_ids = movieIds,
                                        c_reasoning = reasoning, c_context = ctx,
                                        c_confidence_score = p_confidence profile,
                                        c_expires_at = expiresAt, c_created_at = now e\<rparr>
                           in (Inr \<lparr>r_error = None, r_recommendations = diversified,
                                     r_profile_confidence = Some (p_confidence profile),
                                     r_cached = Some False, r_ai_powered = Some ai_powered,
                                     r_created_at = None\<rparr>, db'))))))"

section \<open>api/src/recommendations.js\<close>

text \<open>
  String operations of the source on ASCII text: \<open>split(',')\<close>, \<open>trim()\<close> and
  \<open>toLowerCase()\<close>. Characters outside ASCII are left alone.
\<close>

fun split_on :: "char \<Rightarrow> string \<Rightarrow> string list" where
  "split_on c [] = [[]]"
| "split_on c (x # xs) =
    (if x = c then [] # split_on c xs
     else (case split_on c xs of [] \<Rightarrow> [[x]] | w # ws \<Rightarrow> (x # w) # ws))"

definition is_space :: "char \<Rightarrow> bool" where
  "is_space c = (c = CHR '' '' \<or> c = CHR 0x09 \<or> c = CHR 0x0A \<or> c = CHR 0x0B \<or>
                 c = CHR 0x0C \<or> c = CHR 0x0D)"

definition trim :: "string \<Rightarrow> string" where
  "trim s = rev (dropWhile is_space (rev (dropWhile is_space s)))"

definition lower_char :: "char \<Rightarrow> char" where
  "lower_char c =
    (let n = (of_char c :: nat) in if 65 \<le> n \<and> n \<le> 90 then char_of (n + 32) else c)"

definition toLowerCase :: "string \<Rightarrow> string" where
  "toLowerCase s = map lower_char s"

text \<open>
  A row of the \<open>movies\<close> table as this module reads it: \<open>genres\<close> is a comma-separated
  text, the key is the IMDB id.
\<close>

record api_movie =
  a_imdb_id :: string
  a_title :: string
  a_year :: int
  a_genres :: "string option"
  a_director :: "string option"
  a_tmdb_rating :: "real option"
  a_runtime_minutes :: "int option"
  a_plot_keywords :: "string list option"
  a_user_rating :: "int option"

record api_profile =
  ap_genres :: "(string \<times> real) list"
  ap_eras :: "(string \<times> real) list"
  ap_themes :: "string list"
  ap_directors :: "string list"
  ap_runtime_preference :: "string option"
  ap_sample_size :: nat
  ap_confidence :: real

text \<open>
  A row of \<open>taste_profile\<close>: the dimension value is the genre, era, theme, director or
  preference itself, the metadata is a JSON object with a score, a rank or the
  confidence.
\<close>

datatype api_metadata = ApiScore real | ApiRank nat | ApiConfidence real

record api_profile_row =
  atp_dimension_name :: string
  atp_dimension_value :: string
  atp_sample_size :: nat
  atp_metadata :: "api_metadata option"

text \<open>One entry of a cached or generated recommendation list.\<close>

record api_rec =
  ar_imdb_id :: string
  ar_match_score :: real
  ar_reasoning :: string

record api_cache_row =
  ac_context :: string
  ac_recommended_movie_ids :: "api_rec list"
  ac_confidence_score :: real
  ac_expires_at :: nat
  ac_created_at :: nat

record api_db =
  adb_movies :: "api_movie list"
  adb_taste_profile :: "api_profile_row list"
  adb_recommendations :: "api_cache_row list"

text \<open>Assignment to a property of an object: an existing key keeps its place.\<close>

fun obj_set :: "string \<Rightarrow> 'v \<Rightarrow> (string \<times> 'v) list \<Rightarrow> (string \<times> 'v) list" where
  "obj_set k v [] = [(k, v)]"
| "obj_set k v ((k', v') # kvs) =
    (if k' = k then (k, v) # kvs else (k', v') # obj_set k v kvs)"

definition metadata_score :: "api_metadata option \<Rightarrow> real" where
  "metadata_score m = (case m of Some (ApiScore s) \<Rightarrow> s | _ \<Rightarrow> 0)"

definition metadata_confidence :: "api_metadata option \<Rightarrow> real" where
  "metadata_confidence m = (case m of Some (ApiConfidence c) \<Rightarrow> c | _ \<Rightarrow> 0)"

definition api_load_row :: "api_profile \<Rightarrow> api_profile_row \<Rightarrow> api_profile" where
  "api_load_row p row =
    (let p = p\<lparr>ap_sample_size := atp_sample_size row\<rparr>;
         name = atp_dimension_name row;
         v = atp_dimension_value row
     in if name = ''genre'' then
          p\<lparr>ap_genres := obj_set v (metadata_score (atp_metadata row)) (ap_genres p)\<rparr>
        else if name = ''era'' then
          p\<lparr>ap_eras := obj_set v (metadata_score (atp_metadata row)) (ap_eras p)\<rparr>
        else if name = ''theme'' then p\<lparr>ap_themes := ap_themes p @ [v]\<rparr>
        else if name = ''director'' then p\<lparr>ap_directors := ap_directors p @ [v]\<rparr>
        else if name = ''runtime_preference'' then
          p\<lparr>ap_runtime_preference := Some v,
            ap_confidence := metadata_confidence (atp_metadata row)\<rparr>
        else p)"

definition api_loadTasteProfile :: "api_db \<Rightarrow> api_profile option" where
  "api_loadTasteProfile db =
    (if adb_taste_profile db = [] then None
     else Some (foldl api_load_row
                  \<lparr>ap_genres = [], ap_eras = [], ap_themes = [], ap_directors = [],
                   ap_runtime_preference = None, ap_sample_size = 0, ap_confidence = 0\<rparr>
                  (adb_taste_profile db)))"

definition movie_genres :: "string \<Rightarrow> string list" where
  "movie_genres text = map trim (split_on CHR '','' text)"

definition filterByGenre :: "api_movie list \<Rightarrow> string list option \<Rightarrow> api_movie list" where
  "filterByGenre movies genreFilter =
    (case genreFilter of
       None \<Rightarrow> movies
     | Some gf \<Rightarrow>
         if gf = [] then movies
         else filter (\<lambda>m. case a_genres m of
                             None \<Rightarrow> False
                           | Some text \<Rightarrow>
                               text \<noteq> [] \<and>
                               list_ex (\<lambda>genre.
                                   list_ex (\<lambda>mg. toLowerCase mg = toLowerCase genre)
                                     (movie_genres text)) gf)
                movies)"

definition filterByEra :: "api_movie list \<Rightarrow> string option \<Rightarrow> api_movie list" where
  "filterByEra movies eraFilter =
    (case eraFilter of
       None \<Rightarrow> movies
     | Some era \<Rightarrow>
         if era = [] then movies
         else filter (\<lambda>m. a_year m \<noteq> 0 \<and>
                          (if era = ''classic'' then a_year m < 2000
                           else if era = ''modern'' then a_year m \<ge> 2000 \<and> a_year m \<le> 2015
                           else if era = ''recent'' then a_year m > 2015
                           else True))
                movies)"

text \<open>
  \<open>buildCacheKey\<close>: mood, the sorted genres and the era joined by underscores.
  \<open>Array.prototype.sort\<close> without a comparator orders strings by their code units.
\<close>

definition buildCacheKey :: "options \<Rightarrow> string" where
  "buildCacheKey opts =
    (case mood opts of None \<Rightarrow> ''any'' | Some m \<Rightarrow> if m = [] then ''any'' else m)
    @ ''_'' @ (case genre_filter opts of None \<Rightarrow> ''any'' | Some gs \<Rightarrow> join '','' (sort gs))
    @ ''_'' @ (case era_filter opts of None \<Rightarrow> ''any'' | Some e \<Rightarrow> if e = [] then ''any'' else e)"

record api_recommendation =
  arec_movie :: api_movie
  arec_match_score :: real
  arec_reasoning :: string

text \<open>
  Joining recommendation entries with the rows of a query result:
  \<open>recs.map(rec => ({movie: movies.find(...), ...})).filter(r => r.movie)\<close>.
\<close>

definition attach_movies :: "api_movie list \<Rightarrow> api_rec list \<Rightarrow> api_recommendation list" where
  "attach_movies movies recs =
    List.map_filter
      (\<lambda>rec. case find (\<lambda>m. a_imdb_id m = ar_imdb_id rec) movies of
                None \<Rightarrow> None
              | Some m \<Rightarrow> Some \<lparr>arec_movie = m, arec_match_score = ar_match_score rec,
                                arec_reasoning = ar_reasoning rec\<rparr>)
      recs"

text \<open>\<open>SELECT ... FROM movies WHERE imdb_id IN (ids)\<close>.\<close>

definition select_movies :: "api_db \<Rightarrow> string list \<Rightarrow> api_movie list" where
  "select_movies db ids = filter (\<lambda>m. a_imdb_id m \<in> set ids) (adb_movies db)"

record cache_hit =
  ch_recommendations :: "api_recommendation list"
  ch_confidence_score :: real

definition checkCache :: "api_db \<Rightarrow> nat \<Rightarrow> string \<Rightarrow> cache_hit option" where
  "checkCache db t cacheKey =
    (case sort_key (\<lambda>r. - int (ac_created_at r))
            (filter (\<lambda>r. ac_context r = cacheKey \<and> ac_expires_at r > t)
               (adb_recommendations db)) of
       [] \<Rightarrow> None
     | result # _ \<Rightarrow>
         (let recommendations = ac_recommended_movie_ids result;
              movieIds = filter (\<lambda>i. i \<noteq> []) (map ar_imdb_id recommendations)
          in if movieIds = [] then
               Some \<lparr>ch_recommendations = [], ch_confidence_score = ac_confidence_score result\<rparr>
             else
               Some \<lparr>ch_recommendations =
                       attach_movies (select_movies db movieIds) recommendations,
                     ch_confidence_score = ac_confidence_score result\<rparr>))"

definition CACHE_DURATION_HOURS :: nat where "CACHE_DURATION_HOURS = 24"

text \<open>\<open>saveToCache\<close>: the INSERT is awaited with no handler of its own.\<close>

definition saveToCache ::
  "api_db \<Rightarrow> env \<Rightarrow> string \<Rightarrow> api_rec list \<Rightarrow> real \<Rightarrow> js_error + api_db" where
  "saveToCache db e cacheKey recommendations confidenceScore =
    (if cache_write_fails e then Inl DatabaseError
     else Inr (db\<lparr>adb_recommendations := adb_recommendations db @
                 [\<lparr>ac_context = cacheKey, ac_recommended_movie_ids = recommendations,
                   ac_confidence_score = confidenceScore,
                   ac_expires_at = now e + CACHE_DURATION_HOURS * 60 * 60 * 1000,
                   ac_created_at = now e\<rparr>]\<rparr>))"

definition calculateFallbackScore :: "api_movie \<Rightarrow> api_profile \<Rightarrow> real" where
  "calculateFallbackScore m p =
    (let acc = (0, 0);
         acc =
           (case a_genres m of
              None \<Rightarrow> acc
            | Some text \<Rightarrow>
                if text \<noteq> [] \<and> ap_genres p \<noteq> [] then
                  (let genreScores =
                         filter (\<lambda>s. s > 0)
                           (map (\<lambda>g. or_default (map_of (ap_genres p) g) 0) (movie_genres text))
                   in if genreScores \<noteq> [] then
                        add_factor acc
                          (Some (foldl (\<lambda>sum s. sum + s) 0 genreScores / real (length genreScores)))
                      else acc)
                else acc);
         acc =
           (case a_tmdb_rating m of
              None \<Rightarrow> acc
            | Some r \<Rightarrow> if r \<noteq> 0 then add_factor acc (Some (r / 10)) else acc)
     in if snd acc > 0 then fst acc / real (snd acc) else 1/2)"

text \<open>
  The reply of the model to \<open>generateWithAI\<close>, after the code fences are stripped: the
  call throws, the text is empty, it is not JSON, it is JSON but not an array, or it is
  an array. An element of the array is \<open>null\<close> or a value whose \<open>imdb_id\<close> and
  \<open>reasoning\<close> are strings or missing and whose \<open>match_score\<close> is a number or missing.
\<close>

datatype ai_rec = AiRecNull | AiRec "string option" "real option" "string option"

datatype api_oracle_reply =
  ReplyThrows | ReplyEmpty | ReplyNotJson | ReplyNotArray | ReplyArray "ai_rec list"

definition ai_rec_valid :: "ai_rec \<Rightarrow> bool" where
  "ai_rec_valid r =
    (case r of
       AiRecNull \<Rightarrow> False
     | AiRec i s t \<Rightarrow>
         truthy_str i \<and> (case s of None \<Rightarrow> False | Some x \<Rightarrow> True) \<and> truthy_str t)"

definition ai_rec_entry :: "ai_rec \<Rightarrow> api_rec option" where
  "ai_rec_entry r =
    (case r of
       AiRec (Some i) (Some s) (Some t) \<Rightarrow>
         Some \<lparr>ar_imdb_id = i, ar_match_score = s, ar_reasoning = t\<rparr>
     | _ \<Rightarrow> None)"

text \<open>
  \<open>generateWithAI\<close>: every failure is thrown to the caller. (The candidates are sorted
  by rating in place before the call; see \<open>api_generateRecommendations\<close>.)
\<close>

definition generateWithAI :: "api_oracle_reply \<Rightarrow> js_error + api_rec list" where
  "generateWithAI reply =
    (case reply of
       ReplyThrows \<Rightarrow> Inl OracleError
     | ReplyEmpty \<Rightarrow> Inl OracleError
     | ReplyNotJson \<Rightarrow> Inl OracleError
     | ReplyNotArray \<Rightarrow> Inl OracleError
     | ReplyArray recommendations \<Rightarrow>
         if recommendations = [] then Inl OracleError
         else if list_ex (\<lambda>r. r = AiRecNull) recommendations then Inl TypeError
         else
           (let validated = List.map_filter ai_rec_entry (filter ai_rec_valid recommendations)
            in if validated = [] then Inl OracleError else Inr validated))"

definition generateFallback :: "api_movie list \<Rightarrow> api_profile \<Rightarrow> nat \<Rightarrow> api_rec list" where
  "generateFallback candidates p n =
    take n (sort_key (\<lambda>r. - ar_match_score r)
      (map (\<lambda>m. \<lparr>ar_imdb_id = a_imdb_id m, ar_match_score = calculateFallbackScore m p,
                  ar_reasoning = ''Recommended based on genre preferences and ratings''\<rparr>)
         candidates))"

record api_result =
  res_error :: "string option"
  res_recommendations :: "api_recommendation list"
  res_profile_confidence :: real
  res_cached :: bool
  res_filters_applied :: options

text \<open>
  The stages of a fresh computation of \<open>generateRecommendations\<close>: the unrated movies
  that pass the filters; the oracle's entries or, when \<open>generateWithAI\<close> throws, the
  fallback's. \<open>generateWithAI\<close> sorts the candidate array in place by descending rating
  before it asks the model, so the fallback ranks the candidates in that order.
\<close>

definition api_candidates :: "api_db \<Rightarrow> options \<Rightarrow> api_movie list" where
  "api_candidates db opts =
    (let allMovies = adb_movies db;
         unratedMovies = filter (\<lambda>m. \<not> truthy_int (a_user_rating m)) allMovies;
         candidates = unratedMovies;
         candidates = filterByGenre candidates (genre_filter opts);
         candidates = filterByEra candidates (era_filter opts)
     in candidates)"

definition oracle_or_fallback ::
  "api_oracle_reply \<Rightarrow> api_movie list \<Rightarrow> api_profile \<Rightarrow> nat \<Rightarrow> api_rec list" where
  "oracle_or_fallback reply candidates profile n =
    (let candidates = sort_key (\<lambda>m. - or_default (a_tmdb_rating m) 0) candidates
     in case generateWithAI reply of
          Inr recs \<Rightarrow> recs
        | Inl aiError \<Rightarrow> generateFallback candidates profile n)"

text \<open>
  \<open>generateRecommendations\<close>. \<open>buildCacheKey\<close> sorts \<open>options.genre_filter\<close> in place.
  The outer try block rethrows whatever is thrown inside it.
\<close>

definition api_generateRecommendations ::
  "api_db \<Rightarrow> api_oracle_reply \<Rightarrow> env \<Rightarrow> options \<Rightarrow> (js_error + api_result) \<times> api_db" where
  "api_generateRecommendations db reply e opts =
    (let n = effective_count opts in
     case api_loadTasteProfile db of
       None \<Rightarrow>
         (Inr \<lparr>res_error = Some ''No taste profile found. Calculate one first.'',
                res_recommendations = [], res_profile_confidence = 0, res_cached = False,
                res_filters_applied = opts\<rparr>, db)
     | Some profile \<Rightarrow>
        (let cacheKey = buildCacheKey opts;
             opts = opts\<lparr>genre_filter := map_option sort (genre_filter opts)\<rparr>
         in case checkCache db (now e) cacheKey of
              Some cached \<Rightarrow>
                (Inr \<lparr>res_error = None,
                       res_recommendations = take n (ch_recommendations cached),
                       res_profile_confidence = ap_confidence profile, res_cached = True,
                       res_filters_applied = opts\<rparr>, db)
            | None \<Rightarrow>
               (let candidates = api_candidates db opts
                in if candidates = [] then
                     (Inr \<lparr>res_error = Some ''No movies match the specified filters'',
                            res_recommendations = [],
                            res_profile_confidence = ap_confidence profile,
                            res_cached = False, res_filters_applied = opts\<rparr>, db)
                   else
                     (let aiRecommendations = oracle_or_fallback reply candidates profile n;
                          movieIds = filter (\<lambda>i. i \<noteq> []) (map ar_imdb_id aiRecommendations)
                      in if movieIds = [] then
                           (Inr \<lparr>res_error = None, res_recommendations = [],
                                  res_profile_confidence = ap_confidence profile,
                                  res_cached = False, res_filters_applied = opts\<rparr>, db)
                         else
                           (let movies = select_movies db movieIds;
                                recommendations = attach_movies movies aiRecommendations
                            in case saveToCache db e cacheKey aiRecommendations
                                      (ap_confidence profile) of
                                 Inl err \<Rightarrow> (Inl err, db)
                               | Inr db' \<Rightarrow>
                                   (Inr \<lparr>res_error = None,
                                          res_recommendations = recommendations,
                                          res_profile_confidence = ap_confidence profile,
                                          res_cached = False,
                                          res_filters_applied = opts\<rparr>, db'))))))"

section \<open>worker/src/tasteProfile.js\<close>

definition MIN_SAMPLE_SIZE :: nat where "MIN_SAMPLE_SIZE = 20"

text \<open>A nullable rating in a comparison: \<open>null\<close> compares as 0.\<close>

definition rating_of :: "int option \<Rightarrow> int" where
  "rating_of r = (case r of None \<Rightarrow> 0 | Some n \<Rightarrow> n)"

definition has_value :: "'a option \<Rightarrow> bool" where
  "has_value x = (case x of None \<Rightarrow> False | Some v \<Rightarrow> True)"

record 'm rating_groups =
  loved :: "'m list"
  liked :: "'m list"
  neutral :: "'m list"
  disliked :: "'m list"

definition groupMoviesByRating :: "worker_movie list \<Rightarrow> worker_movie rating_groups" where
  "groupMoviesByRating movies =
    \<lparr>loved = filter (\<lambda>m. rating_of (w_user_rating m) \<ge> 9) movies,
     liked = filter (\<lambda>m. rating_of (w_user_rating m) \<ge> 7 \<and> rating_of (w_user_rating m) \<le> 8)
               movies,
     neutral = filter (\<lambda>m. rating_of (w_user_rating m) \<ge> 5 \<and> rating_of (w_user_rating m) \<le> 6)
                 movies,
     disliked = filter (\<lambda>m. rating_of (w_user_rating m) \<ge> 1 \<and> rating_of (w_user_rating m) \<le> 4)
                  movies\<rparr>"

text \<open>\<open>obj[k] = (obj[k] || 0) + v\<close>: a new key goes to the end.\<close>

fun obj_add :: "string \<Rightarrow> real \<Rightarrow> (string \<times> real) list \<Rightarrow> (string \<times> real) list" where
  "obj_add k v [] = [(k, v)]"
| "obj_add k v ((k', v') # kvs) =
    (if k' = k then (k', v' + v) # kvs else (k', v') # obj_add k v kvs)"

text \<open>\<open>Math.max(...Object.values(scores), 1)\<close> and the normalisation by it.\<close>

definition normalize_by_max :: "(string \<times> real) list \<Rightarrow> (string \<times> real) list" where
  "normalize_by_max scores =
    (let maxScore = foldl max 1 (map snd scores)
     in map (\<lambda>(k, v). (k, toFixed2 (v / maxScore))) scores)"

definition all_groups :: "'m rating_groups \<Rightarrow> 'm list" where
  "all_groups grouped = loved grouped @ liked grouped @ neutral grouped @ disliked grouped"

definition extractGenrePreferences :: "worker_movie rating_groups \<Rightarrow> (string \<times> real) list" where
  "extractGenrePreferences grouped =
    normalize_by_max
      (foldl (\<lambda>genreScores m.
                case w_genres m of
                  None \<Rightarrow> genreScores
                | Some genres \<Rightarrow>
                    (let weight = real_of_int (rating_of (w_user_rating m)) / 10
                     in foldl (\<lambda>scores genre. obj_add genre weight scores) genreScores genres))
         [] (all_groups grouped))"

definition extractEraPreferences :: "worker_movie rating_groups \<Rightarrow> (string \<times> real) list" where
  "extractEraPreferences grouped =
    normalize_by_max
      (foldl (\<lambda>eraScores m.
                if w_year m = 0 then eraScores
                else obj_add (decade_label (w_year m))
                       (real_of_int (rating_of (w_user_rating m)) / 10) eraScores)
         [] (all_groups grouped))"

definition runtime_category :: "int \<Rightarrow> string" where
  "runtime_category runtime =
    (if runtime < 90 then ''short'' else if runtime \<le> 150 then ''medium'' else ''long'')"

text \<open>
  \<open>extractRuntimePreference\<close>: the sums and counts start with the keys short, medium and
  long, which are then visited in that order.
\<close>

definition extractRuntimePreference :: "worker_movie rating_groups \<Rightarrow> string" where
  "extractRuntimePreference grouped =
    (let start = [(''short'', 0), (''medium'', 0), (''long'', 0)];
         rated = filter (\<lambda>m. truthy_int (w_runtime_minutes m)) (loved grouped @ liked grouped);
         runtimeScores =
           foldl (\<lambda>acc m. obj_add (runtime_category (rating_of (w_runtime_minutes m)))
                              (real_of_int (rating_of (w_user_rating m))) acc) start rated;
         runtimeCounts =
           foldl (\<lambda>acc m. obj_add (runtime_category (rating_of (w_runtime_minutes m))) 1 acc)
             start rated;
         best =
           foldl (\<lambda>(bestCategory, bestAvg) category.
                    (let c = or_default (map_of runtimeCounts category) 0 in
                     if c = 0 then (bestCategory, bestAvg)
                     else
                       (let avg = or_default (map_of runtimeScores category) 0 / c in
                        if avg > bestAvg then (category, avg) else (bestCategory, bestAvg))))
             (''medium'', 0) (map fst runtimeScores)
     in fst best)"

text \<open>\<open>toFixed(1)\<close> read back by \<open>parseFloat\<close>.\<close>

definition toFixed1 :: "real \<Rightarrow> real" where
  "toFixed1 x =
    (if x < 0 then - (real_of_int \<lfloor>(- x) * 10 + 1/2\<rfloor> / 10)
     else real_of_int \<lfloor>x * 10 + 1/2\<rfloor> / 10)"

definition extractDirectorAffinity :: "worker_movie list \<Rightarrow> director_affinity list" where
  "extractDirectorAffinity lovedMovies =
    (let directed = filter (\<lambda>m. truthy_str (w_director m)) lovedMovies;
         name_of = (\<lambda>m. case w_director m of None \<Rightarrow> [] | Some d \<Rightarrow> d);
         directorScores =
           foldl (\<lambda>acc m. obj_add (name_of m) (real_of_int (rating_of (w_user_rating m))) acc)
             [] directed;
         directorCounts = foldl (\<lambda>acc m. obj_add (name_of m) 1 acc) [] directed
     in map (\<lambda>(director, n).
               \<lparr>d_name = director, d_count = nat \<lfloor>n\<rfloor>,
                d_avg_rating = toFixed1 (or_default (map_of directorScores director) 0 / n)\<rparr>)
          (take 5 (sort_key (\<lambda>(director, n). - n) directorCounts)))"

text \<open>
  The theme oracle. \<open>extractThemesWithAI\<close> asks the model for themes and takes the
  bracketed part of the reply as a JSON array: the call or the parse throws, or the
  reply has no bracketed part, or the array is there.
\<close>

datatype theme_reply = ThemesThrow string | ThemesNoJson | ThemesArray "string list"

text \<open>\<open>arr.filter((k, i, arr) => arr.indexOf(k) === i)\<close>: the first occurrences.\<close>

definition first_occurrences :: "string list \<Rightarrow> string list" where
  "first_occurrences xs = rev (remdups (rev xs))"

record theme_result =
  th_themes :: "string list"
  th_ai_powered :: bool
  th_error :: "string option"

definition keywords_of :: "worker_movie list \<Rightarrow> string list" where
  "keywords_of movies =
    concat (map (\<lambda>m. case w_plot_keywords m of None \<Rightarrow> [] | Some ks \<Rightarrow> ks) movies)"

definition extractThemesWithAI ::
  "theme_reply \<Rightarrow> worker_movie list \<Rightarrow> worker_movie list \<Rightarrow> theme_result" where
  "extractThemesWithAI reply lovedMovies dislikedMovies =
    (let lovedKeywords = take 50 (keywords_of lovedMovies) in
     case reply of
       ThemesArray themes \<Rightarrow>
         \<lparr>th_themes = take 5 themes, th_ai_powered = True, th_error = None\<rparr>
     | ThemesNoJson \<Rightarrow>
         \<lparr>th_themes = take 5 (first_occurrences lovedKeywords), th_ai_powered = False,
          th_error = None\<rparr>
     | ThemesThrow message \<Rightarrow>
         (let keywordCounts =
                foldl (\<lambda>acc keyword. obj_add keyword 1 acc) [] (keywords_of lovedMovies);
              topKeywords = take 5 (map fst (sort_key (\<lambda>(k, n). - n) keywordCounts))
          in \<lparr>th_themes = topKeywords, th_ai_powered = False, th_error = Some message\<rparr>))"

definition worker_calculateConfidence :: "nat \<Rightarrow> real" where
  "worker_calculateConfidence sampleSize =
    (if sampleSize < MIN_SAMPLE_SIZE then 0
     else if sampleSize \<ge> 100 then 1
     else toFixed2 ((real sampleSize - real MIN_SAMPLE_SIZE) / (100 - real MIN_SAMPLE_SIZE)))"

text \<open>The value \<open>calculateTasteProfile\<close> returns: the error object or the profile.\<close>

record insufficient_data =
  error_message :: string
  sample_size :: nat
  required :: nat

datatype 'p profile_outcome = InsufficientData insufficient_data | ProfileComputed 'p

record computed_profile =
  cp_profile :: worker_profile
  cp_ai_powered :: bool
  cp_calculated_at :: nat
  cp_ai_error :: "string option"

text \<open>\<open>SELECT * FROM movies WHERE user_rating IS NOT NULL ORDER BY user_rating DESC\<close>.\<close>

definition worker_rated_movies :: "worker_db \<Rightarrow> worker_movie list" where
  "worker_rated_movies db =
    sort_key (\<lambda>m. - rating_of (w_user_rating m))
      (filter (\<lambda>m. has_value (w_user_rating m)) (db_movies db))"

definition profile_rows :: "worker_profile \<Rightarrow> worker_profile_row list" where
  "profile_rows p =
    [\<lparr>tp_dimension_name = ''genres'', tp_dimension_value = 0,
      tp_sample_size = p_sample_size p, tp_metadata = Some (MetaScores (p_genres p))\<rparr>,
     \<lparr>tp_dimension_name = ''eras'', tp_dimension_value = 0,
      tp_sample_size = p_sample_size p, tp_metadata = Some (MetaScores (p_eras p))\<rparr>,
     \<lparr>tp_dimension_name = ''themes'', tp_dimension_value = 0,
      tp_sample_size = p_sample_size p, tp_metadata = Some (MetaThemes (p_themes p))\<rparr>,
     \<lparr>tp_dimension_name = ''runtime_preference'', tp_dimension_value = p_confidence p,
      tp_sample_size = p_sample_size p,
      tp_metadata = Some (MetaPreference (p_runtime_preference p))\<rparr>,
     \<lparr>tp_dimension_name = ''directors'', tp_dimension_value = p_confidence p,
      tp_sample_size = p_sample_size p, tp_metadata = Some (MetaDirectors (p_directors p))\<rparr>]"

text \<open>
  \<open>calculateTasteProfile\<close> of the worker. Below the minimum sample size it returns the
  error object and touches nothing. Otherwise it computes the profile, deletes the
  stored rows and inserts the five new ones; a failing write throws.
\<close>

definition worker_calculateTasteProfile ::
  "worker_db \<Rightarrow> theme_reply \<Rightarrow> env \<Rightarrow>
     (js_error + computed_profile profile_outcome) \<times> worker_db" where
  "worker_calculateTasteProfile db reply e =
    (let ratedMovies = worker_rated_movies db in
     if length ratedMovies < MIN_SAMPLE_SIZE then
       (Inr (InsufficientData
          \<lparr>error_message = ''Insufficient data: need at least '' @ digits_of MIN_SAMPLE_SIZE
              @ '' rated movies, found '' @ digits_of (length ratedMovies),
           sample_size = length ratedMovies, required = MIN_SAMPLE_SIZE\<rparr>), db)
     else
       (let grouped = groupMoviesByRating ratedMovies;
            genres = extractGenrePreferences grouped;
            eras = extractEraPreferences grouped;
            runtimePreference = extractRuntimePreference grouped;
            directors = extractDirectorAffinity (loved grouped);
            themes = extractThemesWithAI reply (loved grouped) (disliked grouped);
            confidence = worker_calculateConfidence (length ratedMovies);
            profile =
              \<lparr>p_genres = genres, p_eras = eras, p_themes = th_themes themes,
               p_runtime_preference = runtimePreference, p_directors = directors,
               p_sample_size = length ratedMovies, p_confidence = confidence\<rparr>
        in if profile_write_fails e then (Inl DatabaseError, db)
           else
             (Inr (ProfileComputed
                \<lparr>cp_profile = profile, cp_ai_powered = th_ai_powered themes,
                 cp_calculated_at = now e, cp_ai_error = th_error themes\<rparr>),
              db\<lparr>db_taste_profile := profile_rows profile\<rparr>)))"

section \<open>api/src/tasteProfile.js\<close>

definition groupByRating :: "api_movie list \<Rightarrow> api_movie rating_groups" where
  "groupByRating movies =
    \<lparr>loved = filter (\<lambda>m. rating_of (a_user_rating m) \<ge> 9) movies,
     liked = filter (\<lambda>m. rating_of (a_user_rating m) \<ge> 7 \<and> rating_of (a_user_rating m) < 9)
               movies,
     neutral = filter (\<lambda>m. rating_of (a_user_rating m) \<ge> 5 \<and> rating_of (a_user_rating m) < 7)
                 movies,
     disliked = filter (\<lambda>m. rating_of (a_user_rating m) < 5) movies\<rparr>"

text \<open>
  \<open>calculateGenrePreferences\<close>: every genre of a movie adds the weight of the movie's
  tier; the weights are then scaled to the range between their minimum and maximum.
\<close>

definition processMovies ::
  "api_movie list \<Rightarrow> real \<Rightarrow> (string \<times> real) list \<Rightarrow> (string \<times> real) list" where
  "processMovies movies weight genreWeights =
    foldl (\<lambda>acc m.
             case a_genres m of
               None \<Rightarrow> acc
             | Some text \<Rightarrow>
                 if text = [] then acc
                 else foldl (\<lambda>acc genre. if genre = [] then acc else obj_add genre weight acc)
                        acc (movie_genres text))
      genreWeights movies"

definition calculateGenrePreferences :: "api_movie rating_groups \<Rightarrow> (string \<times> real) list" where
  "calculateGenrePreferences ratingGroups =
    (let genreWeights = processMovies (loved ratingGroups) 1 [];
         genreWeights = processMovies (liked ratingGroups) (6/10) genreWeights;
         genreWeights = processMovies (neutral ratingGroups) (3/10) genreWeights;
         genreWeights = processMovies (disliked ratingGroups) (- (5/10)) genreWeights
     in case map snd genreWeights of
          [] \<Rightarrow> []
        | w # ws \<Rightarrow>
            (let maxWeight = foldl max w ws;
                 minWeight = foldl min w ws;
                 range = maxWeight - minWeight
             in map (\<lambda>(genre, x). (genre, if range > 0 then (x - minWeight) / range else 1/2))
                  genreWeights))"

definition calculateEraPreferences :: "api_movie list \<Rightarrow> (string \<times> real) list" where
  "calculateEraPreferences movies =
    (let dated = filter (\<lambda>m. a_year m \<noteq> 0) movies;
         eraCounts = foldl (\<lambda>acc m. obj_add (decade_label (a_year m)) 1 acc) [] dated;
         eraWeights =
           foldl (\<lambda>acc m. obj_add (decade_label (a_year m))
                              (real_of_int (rating_of (a_user_rating m)) / 10) acc) [] dated
     in map (\<lambda>(era, w). (era, w / or_default (map_of eraCounts era) 0)) eraWeights)"

definition calculateRuntimePreference :: "api_movie rating_groups \<Rightarrow> string" where
  "calculateRuntimePreference ratingGroups =
    (let highRated = filter (\<lambda>m. truthy_int (a_runtime_minutes m))
                       (loved ratingGroups @ liked ratingGroups);
         runtimes = map (\<lambda>m. rating_of (a_runtime_minutes m)) highRated;
         short = length (filter (\<lambda>r. r < 90) runtimes);
         medium = length (filter (\<lambda>r. \<not> r < 90 \<and> r \<le> 150) runtimes);
         long = length (filter (\<lambda>r. \<not> r < 90 \<and> \<not> r \<le> 150) runtimes);
         most = max (max short medium) long
     in if medium = most then ''medium'' else if long = most then ''long'' else ''short'')"

definition extractTopDirectors :: "api_movie list \<Rightarrow> string list" where
  "extractTopDirectors lovedMovies =
    (let directorCounts =
           foldl (\<lambda>acc m.
                    case a_director m of
                      None \<Rightarrow> acc
                    | Some d \<Rightarrow>
                        if d = [] \<or> d = ''Unknown'' then acc
                        else foldl (\<lambda>acc director. obj_add director 1 acc) acc
                               (map trim (split_on CHR '','' d)))
             [] lovedMovies
     in map fst (take 5 (sort_key (\<lambda>(director, n). - n) directorCounts)))"

text \<open>
  The theme oracle of the api: \<open>analyzeThemes\<close> asks the model for a comma-separated
  list; the call throws or a text comes back.
\<close>

datatype theme_text_reply = ThemeCallThrows | ThemeText string

definition api_keywords_of :: "api_movie list \<Rightarrow> string list" where
  "api_keywords_of movies =
    concat (map (\<lambda>m. case a_plot_keywords m of None \<Rightarrow> [] | Some ks \<Rightarrow> ks) movies)"

definition keywords_by_count :: "string list \<Rightarrow> string list" where
  "keywords_by_count keywords =
    map fst (sort_key (\<lambda>(k, n). - n) (foldl (\<lambda>acc kw. obj_add kw 1 acc) [] keywords))"

definition analyzeThemes :: "api_movie list \<Rightarrow> theme_text_reply \<Rightarrow> string list" where
  "analyzeThemes lovedMovies reply =
    (let allKeywords = api_keywords_of lovedMovies in
     if allKeywords = [] then []
     else
       (let topKeywords = take 30 (keywords_by_count allKeywords) in
        case reply of
          ThemeCallThrows \<Rightarrow> take 5 (keywords_by_count allKeywords)
        | ThemeText themesText \<Rightarrow>
            (let themes =
                   take 5 (filter (\<lambda>t. t \<noteq> [])
                     (map (\<lambda>t. toLowerCase (trim t)) (split_on CHR '','' themesText)))
             in if themes \<noteq> [] then themes else take 5 topKeywords)))"

text \<open>\<open>Math.round(x * 100) / 100\<close>: a tie goes up.\<close>

definition round2 :: "real \<Rightarrow> real" where
  "round2 x = real_of_int \<lfloor>x * 100 + 1/2\<rfloor> / 100"

definition api_calculateConfidence :: "nat \<Rightarrow> (string \<times> real) list \<Rightarrow> real" where
  "api_calculateConfidence sampleSize genrePreferences =
    (let confidence = min (real sampleSize / 100) 1;
         values = map snd genrePreferences;
         confidence =
           (if values \<noteq> [] then
              (let mean = foldl (\<lambda>sum v. sum + v) 0 values / real (length values);
                   variance =
                     foldl (\<lambda>sum v. sum + (v - mean) ^ 2) 0 values / real (length values)
               in if variance < 5/100 then confidence * (7/10) else confidence)
            else confidence)
     in round2 confidence)"

text \<open>
  \<open>storeTasteProfile\<close>: the stored rows are deleted, then one row is inserted per genre,
  era, theme, the runtime preference and per director, in this order of issue (the
  theme and director inserts are started without being awaited).
\<close>

definition api_profile_rows :: "api_profile \<Rightarrow> api_profile_row list" where
  "api_profile_rows p =
    map (\<lambda>(genre, s). \<lparr>atp_dimension_name = ''genre'', atp_dimension_value = genre,
                        atp_sample_size = ap_sample_size p,
                        atp_metadata = Some (ApiScore s)\<rparr>) (ap_genres p)
    @ map (\<lambda>(era, s). \<lparr>atp_dimension_name = ''era'', atp_dimension_value = era,
                        atp_sample_size = ap_sample_size p,
                        atp_metadata = Some (ApiScore s)\<rparr>) (ap_eras p)
    @ map (\<lambda>(i, theme). \<lparr>atp_dimension_name = ''theme'', atp_dimension_value = theme,
                          atp_sample_size = ap_sample_size p,
                          atp_metadata = Some (ApiRank (i + 1))\<rparr>) (enumerate 0 (ap_themes p))
    @ [\<lparr>atp_dimension_name = ''runtime_preference'',
        atp_dimension_value = (case ap_runtime_preference p of None \<Rightarrow> [] | Some r \<Rightarrow> r),
        atp_sample_size = ap_sample_size p,
        atp_metadata = Some (ApiConfidence (ap_confidence p))\<rparr>]
    @ map (\<lambda>(i, director). \<lparr>atp_dimension_name = ''director'', atp_dimension_value = director,
                             atp_sample_size = ap_sample_size p,
                             atp_metadata = Some (ApiRank (i + 1))\<rparr>)
        (enumerate 0 (ap_directors p))"

definition api_rated_movies :: "api_db \<Rightarrow> api_movie list" where
  "api_rated_movies db =
    sort_key (\<lambda>m. - rating_of (a_user_rating m))
      (filter (\<lambda>m. has_value (a_user_rating m)) (adb_movies db))"

text \<open>
  \<open>calculateTasteProfile\<close> of the api. Its try block rethrows what is thrown inside;
  below the minimum sample size nothing throws and the error object is returned.
\<close>

definition api_calculateTasteProfile ::
  "api_db \<Rightarrow> theme_text_reply \<Rightarrow> env \<Rightarrow> (js_error + api_profile profile_outcome) \<times> api_db" where
  "api_calculateTasteProfile db reply e =
    (let movies = api_rated_movies db in
     if length movies < MIN_SAMPLE_SIZE then
       (Inr (InsufficientData
          \<lparr>error_message = ''Insufficient data for taste profile calculation'',
           sample_size = length movies, required = MIN_SAMPLE_SIZE\<rparr>), db)
     else
       (let ratingGroups = groupByRating movies;
            genres = calculateGenrePreferences ratingGroups;
            eras = calculateEraPreferences movies;
            runtime_preference = calculateRuntimePreference ratingGroups;
            directors = extractTopDirectors (loved ratingGroups);
            themes = analyzeThemes (loved ratingGroups) reply;
            confidence = api_calculateConfidence (length movies) genres;
            profile =
              \<lparr>ap_genres = genres, ap_eras = eras, ap_themes = themes,
               ap_directors = directors, ap_runtime_preference = Some runtime_preference,
               ap_sample_size = length movies, ap_confidence = confidence\<rparr>
        in if profile_write_fails e then (Inl DatabaseError, db)
           else (Inr (ProfileComputed profile),
                 db\<lparr>adb_taste_profile := api_profile_rows profile\<rparr>)))"

section \<open>Concrete databases and requests\<close>

text \<open>
  A worker database: the five profile rows that \<open>calculateTasteProfile\<close> writes, five
  unrated movies of three primary genres, an empty cache.
\<close>

definition mk_worker_movie :: "nat \<Rightarrow> string \<Rightarrow> string \<Rightarrow> worker_movie" where
  "mk_worker_movie i t g =
    \<lparr>w_id = i, w_imdb_id = ''tt000000'' @ [digit_char i], w_title = t, w_year = 2001,
     w_runtime_minutes = None, w_genres = Some [g], w_director = None, w_overview = None,
     w_plot_keywords = None, w_user_rating = None\<rparr>"

definition sample_worker_rows :: "worker_profile_row list" where
  "sample_worker_rows =
    [\<lparr>tp_dimension_name = ''genres'', tp_dimension_value = 0, tp_sample_size = 20,
      tp_metadata = Some (MetaScores [(''Action'', 1), (''Drama'', 1/2), (''Comedy'', 3/10)])\<rparr>,
     \<lparr>tp_dimension_name = ''eras'', tp_dimension_value = 0, tp_sample_size = 20,
      tp_metadata = Some (MetaScores [])\<rparr>,
     \<lparr>tp_dimension_name = ''themes'', tp_dimension_value = 0, tp_sample_size = 20,
      tp_metadata = Some (MetaThemes [])\<rparr>,
     \<lparr>tp_dimension_name = ''runtime_preference'', tp_dimension_value = 0, tp_sample_size = 20,
      tp_metadata = Some (MetaPreference ''medium'')\<rparr>,
     \<lparr>tp_dimension_name = ''directors'', tp_dimension_value = 0, tp_sample_size = 20,
      tp_metadata = Some (MetaDirectors [])\<rparr>]"

definition sample_worker_db :: worker_db where
  "sample_worker_db =
    \<lparr>db_movies =
       [mk_worker_movie 1 ''Action One'' ''Action'',
        mk_worker_movie 2 ''Action Two'' ''Action'',
        mk_worker_movie 3 ''Action Three'' ''Action'',
        mk_worker_movie 4 ''Drama One'' ''Drama'',
        mk_worker_movie 5 ''Comedy One'' ''Comedy''],
     db_taste_profile = sample_worker_rows,
     db_recommendations = []\<rparr>"

definition sample_profile_value :: worker_profile where
  "sample_profile_value =
    \<lparr>p_genres = [(''Action'', 1), (''Drama'', 1/2), (''Comedy'', 3/10)], p_eras = [],
     p_themes = [], p_runtime_preference = ''medium'', p_directors = [],
     p_sample_size = 20, p_confidence = 0\<rparr>"

definition request :: "nat \<Rightarrow> options" where
  "request n = \<lparr>mood = None, genre_filter = None, era_filter = None, count = Some n\<rparr>"

definition quiet_env :: env where
  "quiet_env = \<lparr>now = 0, cache_write_fails = False, profile_write_fails = False\<rparr>"

definition failing_cache_env :: env where
  "failing_cache_env = \<lparr>now = 0, cache_write_fails = True, profile_write_fails = False\<rparr>"

text \<open>An oracle reply that names a film no candidate has.\<close>

definition stray_reply :: oracle_reply where
  "stray_reply = OracleRankings [Ranking (Some ''A Film Outside The Catalogue'') (Some ''A classic'')]"

text \<open>An oracle reply whose entry has no title, such as the JSON text \<open>[{"rank": 1}]\<close>.\<close>

definition untitled_reply :: oracle_reply where
  "untitled_reply = OracleRankings [Ranking None None]"

text \<open>
  An api database: a profile, one rated and two unrated movies, an empty cache.
\<close>

definition mk_api_movie :: "string \<Rightarrow> string \<Rightarrow> string \<Rightarrow> int option \<Rightarrow> api_movie" where
  "mk_api_movie i t g r =
    \<lparr>a_imdb_id = i, a_title = t, a_year = 2021, a_genres = Some g, a_director = None,
     a_tmdb_rating = Some 7, a_runtime_minutes = None, a_plot_keywords = None,
     a_user_rating = r\<rparr>"

definition sample_api_rows :: "api_profile_row list" where
  "sample_api_rows =
    [\<lparr>atp_dimension_name = ''genre'', atp_dimension_value = ''Sci-Fi'', atp_sample_size = 25,
      atp_metadata = Some (ApiScore (9/10))\<rparr>,
     \<lparr>atp_dimension_name = ''genre'', atp_dimension_value = ''Action'', atp_sample_size = 25,
      atp_metadata = Some (ApiScore (4/5))\<rparr>,
     \<lparr>atp_dimension_name = ''runtime_preference'', atp_dimension_value = ''medium'',
      atp_sample_size = 25, atp_metadata = Some (ApiConfidence (17/20))\<rparr>]"

definition sample_api_db :: api_db where
  "sample_api_db =
    \<lparr>adb_movies =
       [mk_api_movie ''tt0000001'' ''Future War'' ''Sci-Fi, Action'' None,
        mk_api_movie ''tt0000002'' ''Blast Off'' ''Action'' None,
        mk_api_movie ''tt0000003'' ''Seen Already'' ''Drama'' (Some 9)],
     adb_taste_profile = sample_api_rows,
     adb_recommendations = []\<rparr>"

definition sample_api_profile :: api_profile where
  "sample_api_profile =
    \<lparr>ap_genres = [(''Sci-Fi'', 9/10), (''Action'', 4/5)], ap_eras = [], ap_themes = [],
     ap_directors = [], ap_runtime_preference = Some ''medium'', ap_sample_size = 25,
     ap_confidence = 17/20\<rparr>"

text \<open>Oracle replies: two well-formed entries; one entry naming the rated movie.\<close>

definition two_entries_reply :: api_oracle_reply where
  "two_entries_reply =
    ReplyArray [AiRec (Some ''tt0000001'') (Some (19/20)) (Some ''Matches your love for Sci-Fi''),
                AiRec (Some ''tt0000002'') (Some (9/10)) (Some ''Action-packed like your favorites'')]"

definition rated_entry_reply :: api_oracle_reply where
  "rated_entry_reply =
    ReplyArray [AiRec (Some ''tt0000003'') (Some (9/10)) (Some ''You rated similar films highly'')]"

text \<open>Databases with a history of ten ratings.\<close>

definition ten_rated_worker_db :: worker_db where
  "ten_rated_worker_db =
    \<lparr>db_movies = map (\<lambda>i. (mk_worker_movie i ''A Rated Film'' ''Drama'')\<lparr>w_user_rating := Some 8\<rparr>)
                   [1..<11],
     db_taste_profile = [], db_recommendations = []\<rparr>"

definition ten_rated_api_db :: api_db where
  "ten_rated_api_db =
    \<lparr>adb_movies = map (\<lambda>i. mk_api_movie (''tt000000'' @ [digit_char i]) ''A Rated Film''
                              ''Drama'' (Some 8)) [0..<10],
     adb_taste_profile = [], adb_recommendations = []\<rparr>"

section \<open>The recommendation engines in the words of the specification\<close>

text \<open>A movie is already rated when its \<open>user_rating\<close> column is set.\<close>

definition worker_rated :: "worker_movie \<Rightarrow> bool" where
  "worker_rated m = truthy_int (w_user_rating m)"

definition api_rated :: "api_movie \<Rightarrow> bool" where
  "api_rated m = truthy_int (a_user_rating m)"

text \<open>The recommendation list of an outcome; a thrown error has none.\<close>

definition worker_list :: "(js_error + worker_result) \<times> worker_db \<Rightarrow> worker_recommendation list" where
  "worker_list out = (case fst out of Inl err \<Rightarrow> [] | Inr res \<Rightarrow> r_recommendations res)"

definition api_list :: "(js_error + api_result) \<times> api_db \<Rightarrow> api_recommendation list" where
  "api_list out = (case fst out of Inl err \<Rightarrow> [] | Inr res \<Rightarrow> res_recommendations res)"

text \<open>The primary category of a recommended movie: its first listed genre.\<close>

definition primary_category :: "worker_recommendation \<Rightarrow> string option" where
  "primary_category r = map_option primary_genre (w_genres (rec_movie r))"

definition category_count :: "string \<Rightarrow> worker_recommendation list \<Rightarrow> nat" where
  "category_count g recs = length (filter (\<lambda>r. primary_category r = Some g) recs)"

text \<open>
  The recommendations a fresh computation chooses before the diversity pass: the
  oracle's ranking of the top candidates when it is usable, else the local scoring.
\<close>

definition worker_choice ::
  "worker_db \<Rightarrow> worker_profile \<Rightarrow> oracle_reply \<Rightarrow> options \<Rightarrow>
     js_error + worker_recommendation list" where
  "worker_choice db profile reply opts =
    (let scored = score_candidates (unrated_candidates db opts) profile
     in choose_recommendations
          (rankWithAI reply (map sc_movie (take (min 50 (length scored)) scored)))
          scored profile (effective_count opts))"

text \<open>The options after \<open>buildCacheKey\<close> has sorted the genre filter in place.\<close>

definition sorted_filter :: "options \<Rightarrow> options" where
  "sorted_filter opts = opts\<lparr>genre_filter := map_option sort (genre_filter opts)\<rparr>"

text \<open>The size of a rating history: the number of movies whose rating is set.\<close>

definition worker_history_size :: "worker_db \<Rightarrow> nat" where
  "worker_history_size db = length (filter (\<lambda>m. w_user_rating m \<noteq> None) (db_movies db))"

definition api_history_size :: "api_db \<Rightarrow> nat" where
  "api_history_size db = length (filter (\<lambda>m. a_user_rating m \<noteq> None) (adb_movies db))"

section \<open>Properties of the fixed-dimension engine\<close>


subsection \<open>The accumulation loops in closed form\<close>





lemma foldl_upd_attr:
  "foldl (\<lambda>p attr. p(attr_id attr \<mapsto> g (attr_id attr))) p0 as d =
     (if d \<in> set (map attr_id as) then Some (g d) else p0 d)"
  by (induction as arbitrary: p0) auto


lemma neutral_at: "getNeutralProfile d = (if d \<in> set attribute_ids then Some (1/2) else None)"
  unfolding getNeutralProfile_def attribute_ids_def
  using foldl_upd_attr[of "\<lambda>k. 1/2" Map.empty FILM_ATTRIBUTES d] by simp

lemma empty_at: "getEmptyProfile d = (if d \<in> set attribute_ids then Some 0 else None)"
  unfolding getEmptyProfile_def attribute_ids_def
  using foldl_upd_attr[of "\<lambda>k. 0" Map.empty FILM_ATTRIBUTES d] by simp








lemma attribute_ids_set:
  "set attribute_ids = {''action'', ''drama'', ''comedy'', ''dark'', ''uplifting'', ''artistic''}"
  by (simp add: attribute_ids_def FILM_ATTRIBUTES_def)

subsection \<open>The profile builder\<close>



text \<open>
  C2 (as amended). For the empty rating history the engine's \<open>calculateTasteProfile\<close>
  returns the neutral profile, every fixed dimension 0.5, and no error; that profile
  has the fixed dimensions and nothing else, so it carries no confidence. The data
  store's \<open>getTasteProfile\<close> succeeds on an empty store with every fixed dimension 0.
\<close>

theorem empty_history_profiles:
  "calculateTasteProfile [] movieMap = getNeutralProfile \<and>
   (\<forall>d\<in>set attribute_ids. getNeutralProfile d = Some (1/2)) \<and>
   (\<forall>d. d \<notin> set attribute_ids \<longrightarrow> getNeutralProfile d = None) \<and>
   (store_ratings (store::UserDataStore) = [] \<longrightarrow>
      getTasteProfile store movieMap = Success getEmptyProfile) \<and>
   (\<forall>d\<in>set attribute_ids. getEmptyProfile d = Some 0)"
proof (intro conjI impI ballI allI)
  show "calculateTasteProfile [] movieMap = getNeutralProfile"
    by (simp add: calculateTasteProfile_def)
  show "getNeutralProfile d = Some (1/2)" if "d \<in> set attribute_ids" for d
    using that by (simp add: neutral_at)
  show "getNeutralProfile d = None" if "d \<notin> set attribute_ids" for d
    using that by (simp add: neutral_at)
  show "getTasteProfile store movieMap = Success getEmptyProfile" if "store_ratings store = []"
    using that by (simp add: getTasteProfile_def)
  show "getEmptyProfile d = Some 0" if "d \<in> set attribute_ids" for d
    using that by (simp add: empty_at)
qed

theorem empty_history_profiles_witness:
  "calculateTasteProfile [] MOVIE_MAP ''action'' = Some (1/2) \<and>
   calculateTasteProfile [] MOVIE_MAP ''confidence'' = None \<and>
   getTasteProfile empty_store MOVIE_MAP = Success getEmptyProfile \<and>
   getEmptyProfile ''drama'' = Some 0"
proof -
  note t = empty_history_profiles[of MOVIE_MAP empty_store]
  have ids: "''action'' \<in> set attribute_ids" "''drama'' \<in> set attribute_ids"
    "''confidence'' \<notin> set attribute_ids"
    by (simp_all add: attribute_ids_set)
  have "calculateTasteProfile [] MOVIE_MAP ''action'' = Some (1/2)"
    using t ids(1) by simp
  moreover have "calculateTasteProfile [] MOVIE_MAP ''confidence'' = None"
    using t ids(3) by simp
  moreover have "getTasteProfile empty_store MOVIE_MAP = Success getEmptyProfile"
    using t by (simp add: empty_store_def)
  moreover have "getEmptyProfile ''drama'' = Some 0"
    using t ids(2) by blast
  ultimately show ?thesis by simp
qed

text \<open>
  The claim as first stated (every fixed dimension 0.5 on the empty history) fails for
  the data store: its profile of the empty store has action 0.
\<close>

theorem empty_store_profile_is_zero:
  "getTasteProfile empty_store MOVIE_MAP = Success getEmptyProfile \<and>
   getEmptyProfile ''action'' = Some 0 \<and>
   getEmptyProfile ''action'' \<noteq> Some (1/2)"
  by (simp add: getTasteProfile_def empty_store_def empty_at attribute_ids_set)

subsection \<open>Cosine similarity\<close>








subsection \<open>Ranking under a neutral profile\<close>






section \<open>Properties of the worker's recommendation engine\<close>

lemma digits_of_digit: "n < 10 \<Longrightarrow> digits_of n = [digit_char n]"
  by (simp add: digits_of.simps)

lemma genre_cap_div: "genre_cap n = (n + 2) div 3"
proof -
  define q where "q = (n + 2) div 3"
  define r where "r = (n + 2) mod 3"
  have "n + 2 = 3 * q + r" and r: "r < 3" by (simp_all add: q_def r_def)
  then have "real (n + 2) = real (3 * q + r)" by simp
  then have n: "real n = 3 * real q + real r - 2" by simp
  have "\<lceil>real n / 3\<rceil> = int q"
  proof (rule ceiling_unique)
    show "real_of_int (int q) - 1 < real n / 3" using n by simp
    show "real n / 3 \<le> real_of_int (int q)" using n r by simp
  qed
  then show ?thesis by (simp add: genre_cap_def q_def)
qed

lemma effective_count_le: "effective_count opts \<le> 50"
  by (simp add: effective_count_def MAX_COUNT_def)

lemma effective_count_pos: "0 < effective_count opts"
  by (simp add: effective_count_def MAX_COUNT_def DEFAULT_COUNT_def split: option.splits)

lemma effective_count_request: "1 \<le> n \<Longrightarrow> n \<le> 50 \<Longrightarrow> effective_count (request n) = n"
  by (simp add: effective_count_def request_def MAX_COUNT_def)

subsection \<open>The shape of a fresh computation\<close>

lemma worker_fresh:
  assumes "worker_loadTasteProfile db = Some profile"
    and "getCachedRecommendations db (now e) (worker_context opts (effective_count opts)) = None"
    and "unrated_candidates db opts \<noteq> []"
  shows "fst (worker_generateRecommendations db reply e opts) =
    (case worker_choice db profile reply opts of
       Inl err \<Rightarrow> Inl err
     | Inr recs \<Rightarrow>
         Inr \<lparr>r_error = None,
              r_recommendations = diversify (effective_count opts) recs,
              r_profile_confidence = Some (p_confidence profile), r_cached = Some False,
              r_ai_powered = Some (oracle_usable (rankWithAI reply (map sc_movie
                 (take (min 50 (length (score_candidates (unrated_candidates db opts) profile)))
                    (score_candidates (unrated_candidates db opts) profile))))),
              r_created_at = None\<rparr>)"
  using assms
  by (simp add: worker_generateRecommendations_def worker_choice_def Let_def split: sum.splits)

lemma worker_fresh_list:
  assumes "worker_loadTasteProfile db = Some profile"
    and "getCachedRecommendations db (now e) (worker_context opts (effective_count opts)) = None"
    and "unrated_candidates db opts \<noteq> []"
  shows "worker_list (worker_generateRecommendations db reply e opts) =
    (case worker_choice db profile reply opts of
       Inl err \<Rightarrow> []
     | Inr recs \<Rightarrow> diversify (effective_count opts) recs)"
  by (simp add: worker_list_def worker_fresh[OF assms] split: sum.splits)

subsection \<open>The diversity pass only reorders\<close>

lemma diversity_step_mset:
  "diversity_step n (gc, d, b) r = (gc', d', b') \<Longrightarrow>
   mset d' + mset b' = mset d + mset b + {#r#}"
  by (auto simp: diversity_step_def Let_def split: option.splits if_splits)

lemma diversity_fold_mset:
  "foldl (diversity_step n) (gc, d, b) recs = (gc', d', b') \<Longrightarrow>
   mset d' + mset b' = mset d + mset b + mset recs"
proof (induction recs arbitrary: gc d b)
  case Nil
  then show ?case by simp
next
  case (Cons r recs)
  obtain gc1 d1 b1 where step: "diversity_step n (gc, d, b) r = (gc1, d1, b1)"
    by (cases "diversity_step n (gc, d, b) r") auto
  with Cons.prems have "foldl (diversity_step n) (gc1, d1, b1) recs = (gc', d', b')" by simp
  then have "mset d' + mset b' = mset d1 + mset b1 + mset recs" by (rule Cons.IH)
  with diversity_step_mset[OF step] show ?case by simp
qed

lemma fill_all: "length d + length b \<le> n \<Longrightarrow> fill_from_backup n d b = d @ b"
  by (induction b arbitrary: d) auto

lemma fill_mset: "mset (fill_from_backup n d b) \<subseteq># mset d + mset b"
proof (induction b arbitrary: d)
  case Nil
  then show ?case by simp
next
  case (Cons x b)
  show ?case
  proof (cases "length d < n")
    case True
    have "mset (fill_from_backup n (d @ [x]) b) \<subseteq># mset (d @ [x]) + mset b" by (rule Cons.IH)
    with True show ?thesis by simp
  next
    case False
    then show ?thesis by simp
  qed
qed

lemma diversify_mset_le: "mset (diversify n recs) \<subseteq># mset recs"
proof -
  obtain gc d b where f: "foldl (diversity_step n) (\<lambda>_. 0, [], []) recs = (gc, d, b)"
    by (cases "foldl (diversity_step n) (\<lambda>_. 0, [], []) recs") auto
  from diversity_fold_mset[OF f] have "mset d + mset b = mset recs" by simp
  with fill_mset[of n d b] show ?thesis by (simp add: diversify_def f)
qed

lemma diversify_permutes: "length recs \<le> n \<Longrightarrow> mset (diversify n recs) = mset recs"
proof -
  assume le: "length recs \<le> n"
  obtain gc d b where f: "foldl (diversity_step n) (\<lambda>_. 0, [], []) recs = (gc, d, b)"
    by (cases "foldl (diversity_step n) (\<lambda>_. 0, [], []) recs") auto
  from diversity_fold_mset[OF f] have m: "mset d + mset b = mset recs" by simp
  then have "size (mset d + mset b) = size (mset recs)" by simp
  then have "length d + length b \<le> n" using le by simp
  then have "fill_from_backup n d b = d @ b" by (rule fill_all)
  with m show ?thesis by (simp add: diversify_def f)
qed

lemma diversify_length: "length (diversify n recs) \<le> length recs"
  using size_mset_mono[OF diversify_mset_le[of n recs]] by simp

lemma diversify_set: "set (diversify n recs) \<subseteq> set recs"
  using set_mset_mono[OF diversify_mset_le[of n recs]] by simp

subsection \<open>What a fresh computation can choose\<close>

lemma ai_recommendations_Inr:
  "ai_recommendations i rs = Inr recs \<Longrightarrow>
   length recs = length rs \<and> (\<forall>r\<in>set recs. \<exists>x. Some x \<in> set rs \<and> rec_movie r = rk_movie x)"
proof (induction i rs arbitrary: recs rule: ai_recommendations.induct)
  case (1 i)
  then show ?case by simp
next
  case (2 i rs)
  then show ?case by simp
next
  case (3 i r rs)
  then show ?case by (fastforce split: sum.splits)
qed

lemma rank_entry_candidate:
  "rank_entry candidates r = Some x \<Longrightarrow> rk_movie x \<in> set candidates"
  by (auto simp: rank_entry_def find_Some_iff split: ranking.splits option.splits)

lemma rankWithAI_candidates:
  "rankWithAI reply candidates = Some rs \<Longrightarrow> Some x \<in> set rs \<Longrightarrow> rk_movie x \<in> set candidates"
  by (auto simp: rankWithAI_def split: oracle_reply.splits if_splits
      dest: rank_entry_candidate[OF sym])

lemma score_candidates_set: "sc_movie ` set (score_candidates filtered profile) = set filtered"
  by (simp add: score_candidates_def image_image)

lemma applyFilters_subset: "set (applyFilters ms opts) \<subseteq> set ms"
  by (auto simp: applyFilters_def Let_def split: option.splits if_splits)

lemma unrated_candidates_unrated:
  "m \<in> set (unrated_candidates db opts) \<Longrightarrow> \<not> worker_rated m \<and> m \<in> set (db_movies db)"
  using applyFilters_subset[of "filter (\<lambda>m. \<not> truthy_int (w_user_rating m)) (db_movies db)" opts]
  by (auto simp: unrated_candidates_def worker_rated_def Let_def)

lemma worker_choice_properties:
  assumes "worker_choice db profile reply opts = Inr recs"
  shows "length recs \<le> effective_count opts"
    and "\<forall>r\<in>set recs. rec_movie r \<in> set (unrated_candidates db opts)"
proof -
  let ?scored = "score_candidates (unrated_candidates db opts) profile"
  let ?top = "map sc_movie (take (min 50 (length ?scored)) ?scored)"
  have top: "set ?top \<subseteq> set (unrated_candidates db opts)"
    using score_candidates_set[of "unrated_candidates db opts" profile]
    by (auto dest!: in_set_takeD)
  have fb: "length (fallback_recommendations ?scored profile n) \<le> n \<and>
      (\<forall>r\<in>set (fallback_recommendations ?scored profile n).
         rec_movie r \<in> set (unrated_candidates db opts))" for n
    using score_candidates_set[of "unrated_candidates db opts" profile]
    by (auto simp: fallback_recommendations_def dest!: in_set_takeD)
  show "length recs \<le> effective_count opts"
    using assms fb[of "effective_count opts"]
    by (auto simp: worker_choice_def choose_recommendations_def Let_def
        split: option.splits if_splits dest!: ai_recommendations_Inr)
  show "\<forall>r\<in>set recs. rec_movie r \<in> set (unrated_candidates db opts)"
  proof (cases "rankWithAI reply ?top")
    case None
    then show ?thesis
      using assms fb[of "effective_count opts"]
      by (auto simp: worker_choice_def choose_recommendations_def Let_def)
  next
    case (Some rs)
    show ?thesis
    proof (cases "rs = []")
      case True
      then show ?thesis
        using assms Some fb[of "effective_count opts"]
        by (auto simp: worker_choice_def choose_recommendations_def Let_def)
    next
      case False
      then have ai: "ai_recommendations 0 (take (effective_count opts) rs) = Inr recs"
        using assms Some by (simp add: worker_choice_def choose_recommendations_def Let_def)
      show ?thesis
      proof
        fix r assume "r \<in> set recs"
        with ai_recommendations_Inr[OF ai] obtain x
          where x: "Some x \<in> set (take (effective_count opts) rs)" "rec_movie r = rk_movie x"
          by blast
        then have "Some x \<in> set rs" by (auto dest: in_set_takeD)
        from rankWithAI_candidates[OF Some this] top x(2)
        show "rec_movie r \<in> set (unrated_candidates db opts)" by auto
      qed
    qed
  qed
qed

subsection \<open>What holds of every call of the worker's engine\<close>

lemma cached_recommendations_length: "length (cached_recommendations db cached n) \<le> n"
proof -
  have "length (List.map_filter f (take n ids)) \<le> n" for f :: "nat \<Rightarrow> worker_movie option" and ids
    by (simp add: map_filter_def le_trans[OF length_filter_le])
  then show ?thesis by (simp add: cached_recommendations_def)
qed

lemma worker_length_bound:
  "length (worker_list (worker_generateRecommendations db reply e opts)) \<le> effective_count opts"
proof (cases "worker_loadTasteProfile db")
  case None
  then show ?thesis by (simp add: worker_generateRecommendations_def worker_list_def Let_def)
next
  case (Some profile)
  show ?thesis
  proof (cases "getCachedRecommendations db (now e) (worker_context opts (effective_count opts))")
    case hit: (Some cached)
    then show ?thesis
      using Some cached_recommendations_length
      by (simp add: worker_generateRecommendations_def worker_list_def Let_def)
  next
    case None
    show ?thesis
    proof (cases "unrated_candidates db opts = []")
      case True
      then show ?thesis
        using Some None by (simp add: worker_generateRecommendations_def worker_list_def Let_def)
    next
      case False
      show ?thesis
      proof (cases "worker_choice db profile reply opts")
        case (Inl err)
        then show ?thesis by (simp add: worker_fresh_list[OF Some None False])
      next
        case (Inr recs)
        have "length (diversify (effective_count opts) recs) \<le> length recs"
          by (rule diversify_length)
        also have "\<dots> \<le> effective_count opts" using worker_choice_properties(1)[OF Inr] .
        finally show ?thesis using Inr by (simp add: worker_fresh_list[OF Some None False])
      qed
    qed
  qed
qed

lemma worker_fresh_unrated:
  assumes "getCachedRecommendations db (now e) (worker_context opts (effective_count opts)) = None"
    and "r \<in> set (worker_list (worker_generateRecommendations db reply e opts))"
  shows "\<not> worker_rated (rec_movie r)"
proof (cases "worker_loadTasteProfile db")
  case None
  then show ?thesis
    using assms(2) by (simp add: worker_generateRecommendations_def worker_list_def Let_def)
next
  case (Some profile)
  show ?thesis
  proof (cases "unrated_candidates db opts = []")
    case True
    then show ?thesis
      using Some assms by (simp add: worker_generateRecommendations_def worker_list_def Let_def)
  next
    case False
    show ?thesis
    proof (cases "worker_choice db profile reply opts")
      case (Inl err)
      then show ?thesis using assms(2) by (simp add: worker_fresh_list[OF Some assms(1) False])
    next
      case (Inr recs)
      then have "r \<in> set (diversify (effective_count opts) recs)"
        using assms(2) by (simp add: worker_fresh_list[OF Some assms(1) False])
      then have "r \<in> set recs" using diversify_set by blast
      then have "rec_movie r \<in> set (unrated_candidates db opts)"
        using worker_choice_properties(2)[OF Inr] by blast
      then show ?thesis by (simp add: unrated_candidates_unrated)
    qed
  qed
qed

lemma worker_cache_write_is_best_effort:
  "fst (worker_generateRecommendations db reply (e\<lparr>cache_write_fails := True\<rparr>) opts) =
   fst (worker_generateRecommendations db reply (e\<lparr>cache_write_fails := False\<rparr>) opts)"
  by (simp add: worker_generateRecommendations_def Let_def split: option.splits sum.splits)

lemma failed_oracle_falls_back:
  assumes "reply = OracleFailed \<or> reply = OracleRankings [] \<or>
           (\<exists>rankings. reply = OracleRankings rankings \<and> RankNull \<in> set rankings)"
  shows "worker_choice db profile reply opts =
     Inr (fallback_recommendations (score_candidates (unrated_candidates db opts) profile)
            profile (effective_count opts))"
  using assms
  by (auto simp: worker_choice_def choose_recommendations_def rankWithAI_def Let_def list_ex_iff)

lemma fallback_is_full:
  "length (fallback_recommendations (score_candidates filtered profile) profile n) =
     min n (length filtered)"
  by (simp add: fallback_recommendations_def score_candidates_def min.commute)

subsection \<open>The sample database, stage by stage\<close>

lemma sample_profile: "worker_loadTasteProfile sample_worker_db = Some sample_profile_value"
  by (simp add: worker_loadTasteProfile_def sample_worker_db_def sample_worker_rows_def
      load_profile_row_def default_worker_profile_def sample_profile_value_def)

lemma sample_cache_miss: "getCachedRecommendations sample_worker_db t ctx = None"
  by (simp add: getCachedRecommendations_def sample_worker_db_def)

lemma sample_candidates:
  "unrated_candidates sample_worker_db (request n) =
     [mk_worker_movie 1 ''Action One'' ''Action'',
      mk_worker_movie 2 ''Action Two'' ''Action'',
      mk_worker_movie 3 ''Action Three'' ''Action'',
      mk_worker_movie 4 ''Drama One'' ''Drama'',
      mk_worker_movie 5 ''Comedy One'' ''Comedy'']"
  by (simp add: unrated_candidates_def applyFilters_def request_def sample_worker_db_def
      mk_worker_movie_def truthy_int_def)

lemma sample_scores:
  "calculateBasicMatchScore (mk_worker_movie i t ''Action'') sample_profile_value = 1"
  "calculateBasicMatchScore (mk_worker_movie i t ''Drama'') sample_profile_value = 1/2"
  "calculateBasicMatchScore (mk_worker_movie i t ''Comedy'') sample_profile_value = 3/10"
  by (simp_all add: calculateBasicMatchScore_def mk_worker_movie_def genre_factor_def
      era_factor_def runtime_factor_def add_factor_def or_default_def Let_def
      sample_profile_value_def)

lemma sample_scored:
  "score_candidates (unrated_candidates sample_worker_db (request n)) sample_profile_value =
     [\<lparr>sc_movie = mk_worker_movie 1 ''Action One'' ''Action'', sc_score = 1\<rparr>,
      \<lparr>sc_movie = mk_worker_movie 2 ''Action Two'' ''Action'', sc_score = 1\<rparr>,
      \<lparr>sc_movie = mk_worker_movie 3 ''Action Three'' ''Action'', sc_score = 1\<rparr>,
      \<lparr>sc_movie = mk_worker_movie 4 ''Drama One'' ''Drama'', sc_score = 1/2\<rparr>,
      \<lparr>sc_movie = mk_worker_movie 5 ''Comedy One'' ''Comedy'', sc_score = 3/10\<rparr>]"
  by (simp add: score_candidates_def sample_candidates sample_scores)

lemma stray_ranking:
  assumes "list_all (\<lambda>c. w_title c \<noteq> ''A Film Outside The Catalogue'') candidates"
  shows "rankWithAI stray_reply candidates = Some [None]"
proof -
  have "find (\<lambda>c. Some (w_title c) = Some ''A Film Outside The Catalogue'') candidates = None"
    using assms by (auto simp: find_None_iff list_all_iff)
  then show ?thesis by (simp add: rankWithAI_def stray_reply_def rank_entry_def)
qed

lemma untitled_ranking: "rankWithAI untitled_reply candidates = Some [None]"
proof -
  have "find (\<lambda>c. Some (w_title c) = None) candidates = None"
    by (simp add: find_None_iff)
  then show ?thesis by (simp add: rankWithAI_def untitled_reply_def rank_entry_def)
qed

lemma null_entry_throws:
  assumes "rankWithAI reply
      (map sc_movie (take (min 50 (length (score_candidates (unrated_candidates db opts) profile)))
        (score_candidates (unrated_candidates db opts) profile))) = Some [None]"
  shows "worker_choice db profile reply opts = Inl TypeError"
  using assms effective_count_pos[of opts]
  by (cases "effective_count opts")
     (simp_all add: worker_choice_def Let_def choose_recommendations_def)

lemma sample_stray_choice:
  "worker_choice sample_worker_db sample_profile_value stray_reply (request 3) = Inl TypeError"
  by (rule null_entry_throws, rule stray_ranking) (simp add: sample_scored mk_worker_movie_def)

lemma sample_reasoning:
  "generateBasicReasoning (mk_worker_movie i t ''Action'') sample_profile_value =
     ''Recommended because it matches your love of Action''"
  by (simp add: generateBasicReasoning_def mk_worker_movie_def sample_profile_value_def
      decade_label_def)

lemma toFixed2_one: "toFixed2 1 = 1"
  by (simp add: toFixed2_def)

lemma sample_fallback:
  "fallback_recommendations
      (score_candidates (unrated_candidates sample_worker_db (request 3)) sample_profile_value)
      sample_profile_value 3 =
    [\<lparr>rec_movie = mk_worker_movie 1 ''Action One'' ''Action'', rec_match_score = 1,
       rec_reasoning = Some ''Recommended because it matches your love of Action''\<rparr>,
     \<lparr>rec_movie = mk_worker_movie 2 ''Action Two'' ''Action'', rec_match_score = 1,
       rec_reasoning = Some ''Recommended because it matches your love of Action''\<rparr>,
     \<lparr>rec_movie = mk_worker_movie 3 ''Action Three'' ''Action'', rec_match_score = 1,
       rec_reasoning = Some ''Recommended because it matches your love of Action''\<rparr>]"
  by (simp add: fallback_recommendations_def sample_scored toFixed2_one sample_reasoning)

lemma sample_diversify:
  "diversify 3
    [\<lparr>rec_movie = mk_worker_movie 1 ''Action One'' ''Action'', rec_match_score = 1,
       rec_reasoning = Some ''Recommended because it matches your love of Action''\<rparr>,
     \<lparr>rec_movie = mk_worker_movie 2 ''Action Two'' ''Action'', rec_match_score = 1,
       rec_reasoning = Some ''Recommended because it matches your love of Action''\<rparr>,
     \<lparr>rec_movie = mk_worker_movie 3 ''Action Three'' ''Action'', rec_match_score = 1,
       rec_reasoning = Some ''Recommended because it matches your love of Action''\<rparr>] =
    [\<lparr>rec_movie = mk_worker_movie 1 ''Action One'' ''Action'', rec_match_score = 1,
       rec_reasoning = Some ''Recommended because it matches your love of Action''\<rparr>,
     \<lparr>rec_movie = mk_worker_movie 2 ''Action Two'' ''Action'', rec_match_score = 1,
       rec_reasoning = Some ''Recommended because it matches your love of Action''\<rparr>,
     \<lparr>rec_movie = mk_worker_movie 3 ''Action Three'' ''Action'', rec_match_score = 1,
       rec_reasoning = Some ''Recommended because it matches your love of Action''\<rparr>]"
  by (simp add: diversify_def diversity_step_def genre_cap_div primary_genre_def
      mk_worker_movie_def Let_def)

subsection \<open>Where the worker's engine breaks its contract\<close>

text \<open>
  C6. The oracle answers with a JSON array whose one entry names a film that is not
  among the candidates, or has no title at all. \<open>rankWithAI\<close> turns the entry into
  \<open>null\<close>, the caller reads \<open>r.movie\<close> of it, and the call ends with a TypeError
  instead of the fallback ranking.
\<close>

theorem oracle_stray_title_surfaces_error:
  "fst (worker_generateRecommendations sample_worker_db stray_reply quiet_env (request 3)) =
     Inl TypeError \<and>
   fst (worker_generateRecommendations sample_worker_db untitled_reply quiet_env (request 3)) =
     Inl TypeError"
proof -
  have ne: "unrated_candidates sample_worker_db (request 3) \<noteq> []"
    by (simp add: sample_candidates)
  have "worker_choice sample_worker_db sample_profile_value untitled_reply (request 3) =
      Inl TypeError"
    by (rule null_entry_throws) (rule untitled_ranking)
  with worker_fresh[OF sample_profile sample_cache_miss ne] sample_stray_choice
  show ?thesis by simp
qed

text \<open>
  C7. Five candidates of three primary genres, three recommendations requested, the
  oracle unavailable: the cap is 1 per genre, yet all three recommendations are Action
  films. The pass runs on a list already cut to \<open>count\<close>, so every deferred item is
  appended again.
\<close>

theorem diversity_cap_exceeded:
  "map primary_category
     (worker_list (worker_generateRecommendations sample_worker_db OracleFailed quiet_env
        (request 3))) = [Some ''Action'', Some ''Action'', Some ''Action''] \<and>
   category_count ''Action''
     (worker_list (worker_generateRecommendations sample_worker_db OracleFailed quiet_env
        (request 3))) = 3 \<and>
   genre_cap (effective_count (request 3)) = 1 \<and>
   map (\<lambda>m. map_option primary_genre (w_genres m))
     (unrated_candidates sample_worker_db (request 3)) =
     [Some ''Action'', Some ''Action'', Some ''Action'', Some ''Drama'', Some ''Comedy'']"
proof -
  have ne: "unrated_candidates sample_worker_db (request 3) \<noteq> []"
    by (simp add: sample_candidates)
  have choice: "worker_choice sample_worker_db sample_profile_value OracleFailed (request 3) =
      Inr (fallback_recommendations
        (score_candidates (unrated_candidates sample_worker_db (request 3)) sample_profile_value)
        sample_profile_value 3)"
    using failed_oracle_falls_back[of OracleFailed sample_worker_db sample_profile_value "request 3"]
    by (simp add: effective_count_request)
  have "worker_list (worker_generateRecommendations sample_worker_db OracleFailed quiet_env
      (request 3)) =
    diversify 3 (fallback_recommendations
      (score_candidates (unrated_candidates sample_worker_db (request 3)) sample_profile_value)
      sample_profile_value 3)"
    by (simp add: worker_fresh_list[OF sample_profile sample_cache_miss ne] choice
        effective_count_request)
  also have "\<dots> =
    [\<lparr>rec_movie = mk_worker_movie 1 ''Action One'' ''Action'', rec_match_score = 1,
       rec_reasoning = Some ''Recommended because it matches your love of Action''\<rparr>,
     \<lparr>rec_movie = mk_worker_movie 2 ''Action Two'' ''Action'', rec_match_score = 1,
       rec_reasoning = Some ''Recommended because it matches your love of Action''\<rparr>,
     \<lparr>rec_movie = mk_worker_movie 3 ''Action Three'' ''Action'', rec_match_score = 1,
       rec_reasoning = Some ''Recommended because it matches your love of Action''\<rparr>]"
    by (simp only: sample_fallback sample_diversify)
  finally have list: "worker_list (worker_generateRecommendations sample_worker_db OracleFailed
      quiet_env (request 3)) =
    [\<lparr>rec_movie = mk_worker_movie 1 ''Action One'' ''Action'', rec_match_score = 1,
       rec_reasoning = Some ''Recommended because it matches your love of Action''\<rparr>,
     \<lparr>rec_movie = mk_worker_movie 2 ''Action Two'' ''Action'', rec_match_score = 1,
       rec_reasoning = Some ''Recommended because it matches your love of Action''\<rparr>,
     \<lparr>rec_movie = mk_worker_movie 3 ''Action Three'' ''Action'', rec_match_score = 1,
       rec_reasoning = Some ''Recommended because it matches your love of Action''\<rparr>]" .
  show ?thesis
    by (simp add: list primary_category_def category_count_def primary_genre_def
        mk_worker_movie_def genre_cap_div effective_count_request sample_candidates)
qed

section \<open>Properties of the api's recommendation engine\<close>

subsection \<open>The shape of a fresh computation\<close>

lemma api_fresh:
  assumes "api_loadTasteProfile db = Some profile"
    and "checkCache db (now e) (buildCacheKey opts) = None"
    and "api_candidates db (sorted_filter opts) \<noteq> []"
    and "filter (\<lambda>i. i \<noteq> []) (map ar_imdb_id
           (oracle_or_fallback reply (api_candidates db (sorted_filter opts)) profile
              (effective_count opts))) \<noteq> []"
  shows "fst (api_generateRecommendations db reply e opts) =
    (if cache_write_fails e then Inl DatabaseError
     else Inr \<lparr>res_error = None,
               res_recommendations =
                 attach_movies
                   (select_movies db (filter (\<lambda>i. i \<noteq> []) (map ar_imdb_id
                      (oracle_or_fallback reply (api_candidates db (sorted_filter opts)) profile
                         (effective_count opts)))))
                   (oracle_or_fallback reply (api_candidates db (sorted_filter opts)) profile
                      (effective_count opts)),
               res_profile_confidence = ap_confidence profile, res_cached = False,
               res_filters_applied = sorted_filter opts\<rparr>)"
  using assms
  by (simp add: api_generateRecommendations_def Let_def saveToCache_def sorted_filter_def)

subsection \<open>The sample database, stage by stage\<close>

lemma sample_api_profile_loaded: "api_loadTasteProfile sample_api_db = Some sample_api_profile"
  by (simp add: api_loadTasteProfile_def sample_api_db_def sample_api_rows_def api_load_row_def
      metadata_score_def metadata_confidence_def sample_api_profile_def Let_def)

lemma sample_api_cache_miss: "checkCache sample_api_db t k = None"
  by (simp add: checkCache_def sample_api_db_def)

lemma sample_api_candidates:
  "api_candidates sample_api_db (sorted_filter (request n)) =
     [mk_api_movie ''tt0000001'' ''Future War'' ''Sci-Fi, Action'' None,
      mk_api_movie ''tt0000002'' ''Blast Off'' ''Action'' None]"
  by (simp add: api_candidates_def sorted_filter_def request_def filterByGenre_def
      filterByEra_def sample_api_db_def mk_api_movie_def truthy_int_def)

lemma two_entries_generated:
  "generateWithAI two_entries_reply =
     Inr [\<lparr>ar_imdb_id = ''tt0000001'', ar_match_score = 19/20,
            ar_reasoning = ''Matches your love for Sci-Fi''\<rparr>,
          \<lparr>ar_imdb_id = ''tt0000002'', ar_match_score = 9/10,
            ar_reasoning = ''Action-packed like your favorites''\<rparr>]"
  by (simp add: generateWithAI_def two_entries_reply_def ai_rec_valid_def ai_rec_entry_def
      truthy_str_def List.map_filter_simps)

lemma rated_entry_generated:
  "generateWithAI rated_entry_reply =
     Inr [\<lparr>ar_imdb_id = ''tt0000003'', ar_match_score = 9/10,
            ar_reasoning = ''You rated similar films highly''\<rparr>]"
  by (simp add: generateWithAI_def rated_entry_reply_def ai_rec_valid_def ai_rec_entry_def
      truthy_str_def List.map_filter_simps)

lemma two_entries_attached:
  "attach_movies (select_movies sample_api_db [''tt0000001'', ''tt0000002''])
     [\<lparr>ar_imdb_id = ''tt0000001'', ar_match_score = 19/20,
        ar_reasoning = ''Matches your love for Sci-Fi''\<rparr>,
      \<lparr>ar_imdb_id = ''tt0000002'', ar_match_score = 9/10,
        ar_reasoning = ''Action-packed like your favorites''\<rparr>] =
     [\<lparr>arec_movie = mk_api_movie ''tt0000001'' ''Future War'' ''Sci-Fi, Action'' None,
        arec_match_score = 19/20, arec_reasoning = ''Matches your love for Sci-Fi''\<rparr>,
      \<lparr>arec_movie = mk_api_movie ''tt0000002'' ''Blast Off'' ''Action'' None,
        arec_match_score = 9/10, arec_reasoning = ''Action-packed like your favorites''\<rparr>]"
  by (simp add: attach_movies_def select_movies_def sample_api_db_def mk_api_movie_def
      List.map_filter_simps)

lemma rated_entry_attached:
  "attach_movies (select_movies sample_api_db [''tt0000003''])
     [\<lparr>ar_imdb_id = ''tt0000003'', ar_match_score = 9/10,
        ar_reasoning = ''You rated similar films highly''\<rparr>] =
     [\<lparr>arec_movie = mk_api_movie ''tt0000003'' ''Seen Already'' ''Drama'' (Some 9),
        arec_match_score = 9/10, arec_reasoning = ''You rated similar films highly''\<rparr>]"
  by (simp add: attach_movies_def select_movies_def sample_api_db_def mk_api_movie_def
      List.map_filter_simps)

lemma two_entries_outcome:
  "fst (api_generateRecommendations sample_api_db two_entries_reply e (request n)) =
    (if cache_write_fails e then Inl DatabaseError
     else Inr \<lparr>res_error = None,
               res_recommendations =
                 [\<lparr>arec_movie = mk_api_movie ''tt0000001'' ''Future War'' ''Sci-Fi, Action'' None,
                    arec_match_score = 19/20,
                    arec_reasoning = ''Matches your love for Sci-Fi''\<rparr>,
                  \<lparr>arec_movie = mk_api_movie ''tt0000002'' ''Blast Off'' ''Action'' None,
                    arec_match_score = 9/10,
                    arec_reasoning = ''Action-packed like your favorites''\<rparr>],
               res_profile_confidence = 17/20, res_cached = False,
               res_filters_applied = sorted_filter (request n)\<rparr>)"
proof -
  have recs: "oracle_or_fallback two_entries_reply cs p k =
     [\<lparr>ar_imdb_id = ''tt0000001'', ar_match_score = 19/20,
        ar_reasoning = ''Matches your love for Sci-Fi''\<rparr>,
      \<lparr>ar_imdb_id = ''tt0000002'', ar_match_score = 9/10,
        ar_reasoning = ''Action-packed like your favorites''\<rparr>]" for cs p k
    by (simp add: oracle_or_fallback_def two_entries_generated)
  have "fst (api_generateRecommendations sample_api_db two_entries_reply e (request n)) =
    (if cache_write_fails e then Inl DatabaseError
     else Inr \<lparr>res_error = None,
               res_recommendations =
                 attach_movies (select_movies sample_api_db [''tt0000001'', ''tt0000002''])
                   [\<lparr>ar_imdb_id = ''tt0000001'', ar_match_score = 19/20,
                      ar_reasoning = ''Matches your love for Sci-Fi''\<rparr>,
                    \<lparr>ar_imdb_id = ''tt0000002'', ar_match_score = 9/10,
                      ar_reasoning = ''Action-packed like your favorites''\<rparr>],
               res_profile_confidence = ap_confidence sample_api_profile, res_cached = False,
               res_filters_applied = sorted_filter (request n)\<rparr>)"
    using api_fresh[OF sample_api_profile_loaded sample_api_cache_miss,
        where opts = "request n" and e = e and reply = two_entries_reply]
    by (simp add: sample_api_candidates recs)
  then show ?thesis by (simp only: two_entries_attached) (simp add: sample_api_profile_def)
qed

lemma rated_entry_outcome:
  "api_generateRecommendations sample_api_db rated_entry_reply quiet_env (request 10) =
    (Inr \<lparr>res_error = None,
           res_recommendations =
             [\<lparr>arec_movie = mk_api_movie ''tt0000003'' ''Seen Already'' ''Drama'' (Some 9),
                arec_match_score = 9/10,
                arec_reasoning = ''You rated similar films highly''\<rparr>],
           res_profile_confidence = 17/20, res_cached = False,
           res_filters_applied = request 10\<rparr>,
     sample_api_db\<lparr>adb_recommendations :=
       [\<lparr>ac_context = ''any_any_any'',
         ac_recommended_movie_ids =
           [\<lparr>ar_imdb_id = ''tt0000003'', ar_match_score = 9/10,
              ar_reasoning = ''You rated similar films highly''\<rparr>],
         ac_confidence_score = 17/20, ac_expires_at = 86400000, ac_created_at = 0\<rparr>]\<rparr>)"
proof -
  have recs: "oracle_or_fallback rated_entry_reply cs p k =
     [\<lparr>ar_imdb_id = ''tt0000003'', ar_match_score = 9/10,
        ar_reasoning = ''You rated similar films highly''\<rparr>]" for cs p k
    by (simp add: oracle_or_fallback_def rated_entry_generated)
  have key: "buildCacheKey (request 10) = ''any_any_any''"
    by (simp add: buildCacheKey_def request_def)
  have sf: "request 10\<lparr>genre_filter := map_option sort (genre_filter (request 10))\<rparr> = request 10"
    by (simp add: request_def)
  have cands: "api_candidates sample_api_db (request 10) \<noteq> []"
    using sample_api_candidates[of 10] by (simp add: sorted_filter_def sf)
  have "api_generateRecommendations sample_api_db rated_entry_reply quiet_env (request 10) =
    (Inr \<lparr>res_error = None,
           res_recommendations =
             attach_movies (select_movies sample_api_db [''tt0000003''])
               [\<lparr>ar_imdb_id = ''tt0000003'', ar_match_score = 9/10,
                  ar_reasoning = ''You rated similar films highly''\<rparr>],
           res_profile_confidence = ap_confidence sample_api_profile, res_cached = False,
           res_filters_applied = request 10\<rparr>,
     sample_api_db\<lparr>adb_recommendations := adb_recommendations sample_api_db @
       [\<lparr>ac_context = ''any_any_any'',
         ac_recommended_movie_ids =
           [\<lparr>ar_imdb_id = ''tt0000003'', ar_match_score = 9/10,
              ar_reasoning = ''You rated similar films highly''\<rparr>],
         ac_confidence_score = ap_confidence sample_api_profile,
         ac_expires_at = now quiet_env + CACHE_DURATION_HOURS * 60 * 60 * 1000,
         ac_created_at = now quiet_env\<rparr>]\<rparr>)"
    using cands
    by (simp add: api_generateRecommendations_def Let_def sample_api_profile_loaded
        sample_api_cache_miss key sf recs saveToCache_def quiet_env_def)
  then show ?thesis
    by (simp only: rated_entry_attached)
       (simp add: sample_api_profile_def quiet_env_def CACHE_DURATION_HOURS_def sample_api_db_def)
qed

subsection \<open>The paths of the api's engine that keep the count\<close>

lemma attach_movies_length: "length (attach_movies ms recs) \<le> length recs"
  by (simp add: attach_movies_def map_filter_def le_trans[OF length_filter_le])

lemma api_length_bound_without_oracle:
  assumes "generateWithAI reply = Inl err"
  shows "length (api_list (api_generateRecommendations db reply e opts)) \<le> effective_count opts"
proof -
  have fb: "length (attach_movies ms
      (oracle_or_fallback reply cs p (effective_count opts))) \<le> effective_count opts" for ms cs p
  proof -
    have "length (oracle_or_fallback reply cs p (effective_count opts)) \<le> effective_count opts"
      using assms by (simp add: oracle_or_fallback_def generateFallback_def Let_def)
    with attach_movies_length[of ms "oracle_or_fallback reply cs p (effective_count opts)"]
    show ?thesis by linarith
  qed
  show ?thesis
    using fb
    by (simp add: api_generateRecommendations_def api_list_def Let_def saveToCache_def
        split: option.splits)
qed

subsection \<open>Where the api's engine breaks its contract\<close>

text \<open>
  C3. The database holds a movie the user has rated; the oracle's reply names it. The
  entry passes the validation (an id, a numeric score, a reasoning), the movie is
  fetched from the whole table, and the rated movie is returned as a recommendation.
  The list is cached as it is, so the next call with the same filters returns the rated
  movie again from the cache.
\<close>

theorem oracle_entry_of_rated_movie_is_recommended:
  "map (\<lambda>r. (a_imdb_id (arec_movie r), a_user_rating (arec_movie r)))
     (api_list (api_generateRecommendations sample_api_db rated_entry_reply quiet_env
        (request 10))) = [(''tt0000003'', Some 9)] \<and>
   list_ex (\<lambda>r. api_rated (arec_movie r))
     (api_list (api_generateRecommendations sample_api_db rated_entry_reply quiet_env
        (request 10))) \<and>
   list_ex (\<lambda>r. api_rated (arec_movie r))
     (api_list (api_generateRecommendations
        (snd (api_generateRecommendations sample_api_db rated_entry_reply quiet_env
           (request 10)))
        ReplyThrows quiet_env (request 10)))"
proof -
  let ?db1 = "sample_api_db\<lparr>adb_recommendations :=
       [\<lparr>ac_context = ''any_any_any'',
         ac_recommended_movie_ids =
           [\<lparr>ar_imdb_id = ''tt0000003'', ar_match_score = 9/10,
              ar_reasoning = ''You rated similar films highly''\<rparr>],
         ac_confidence_score = 17/20, ac_expires_at = 86400000, ac_created_at = 0\<rparr>]\<rparr>"
  have key: "buildCacheKey (request 10) = ''any_any_any''"
    by (simp add: buildCacheKey_def request_def)
  have sel: "select_movies (db\<lparr>adb_recommendations := rs\<rparr>) ids = select_movies db ids"
    for db rs ids
    by (simp add: select_movies_def)
  have hit: "checkCache ?db1 0 ''any_any_any'' =
      Some \<lparr>ch_recommendations =
              [\<lparr>arec_movie = mk_api_movie ''tt0000003'' ''Seen Already'' ''Drama'' (Some 9),
                 arec_match_score = 9/10,
                 arec_reasoning = ''You rated similar films highly''\<rparr>],
            ch_confidence_score = 17/20\<rparr>"
    by (simp add: checkCache_def Let_def sel rated_entry_attached)
  have prof: "api_loadTasteProfile (sample_api_db\<lparr>adb_recommendations := rs\<rparr>) =
      Some sample_api_profile" for rs
  proof -
    have "api_loadTasteProfile (db\<lparr>adb_recommendations := rs\<rparr>) = api_loadTasteProfile db"
      for db by (simp add: api_loadTasteProfile_def)
    then show ?thesis by (simp only: sample_api_profile_loaded)
  qed
  have second: "api_list (api_generateRecommendations ?db1 ReplyThrows quiet_env (request 10)) =
      [\<lparr>arec_movie = mk_api_movie ''tt0000003'' ''Seen Already'' ''Drama'' (Some 9),
         arec_match_score = 9/10, arec_reasoning = ''You rated similar films highly''\<rparr>]"
    by (simp add: api_generateRecommendations_def api_list_def Let_def prof key hit
        quiet_env_def effective_count_request)
  have first: "api_list (api_generateRecommendations sample_api_db rated_entry_reply quiet_env
      (request 10)) =
      [\<lparr>arec_movie = mk_api_movie ''tt0000003'' ''Seen Already'' ''Drama'' (Some 9),
         arec_match_score = 9/10, arec_reasoning = ''You rated similar films highly''\<rparr>]"
    by (simp add: api_list_def rated_entry_outcome)
  have db1: "snd (api_generateRecommendations sample_api_db rated_entry_reply quiet_env
      (request 10)) = ?db1"
    by (simp add: rated_entry_outcome)
  show ?thesis
    unfolding db1 first second
    by (simp add: api_rated_def mk_api_movie_def truthy_int_def)
qed

text \<open>
  C8. One recommendation is requested; the oracle's reply holds two well-formed entries
  for two unrated movies. \<open>generateWithAI\<close> returns every validated entry and nothing
  cuts the list to \<open>count\<close>, so two recommendations come back.
\<close>

theorem oracle_entries_exceed_count:
  "effective_count (request 1) = 1 \<and>
   length (api_list (api_generateRecommendations sample_api_db two_entries_reply quiet_env
      (request 1))) = 2"
  by (simp add: api_list_def two_entries_outcome quiet_env_def effective_count_request)

text \<open>
  C10. The same request as computed with a cache that accepts the write and with one
  that rejects it: the first call returns two recommendations, the second throws the
  database error, because \<open>saveToCache\<close> is awaited without a handler and the outer catch
  rethrows.
\<close>

theorem cache_write_failure_fails_call:
  "length (api_list (api_generateRecommendations sample_api_db two_entries_reply quiet_env
      (request 10))) = 2 \<and>
   fst (api_generateRecommendations sample_api_db two_entries_reply failing_cache_env
      (request 10)) = Inl DatabaseError"
  by (simp add: api_list_def two_entries_outcome quiet_env_def failing_cache_env_def)

section \<open>Properties of the discovered-variant profile builders\<close>

lemma digits_of_two_digits:
  "10 \<le> n \<Longrightarrow> n < 100 \<Longrightarrow> digits_of n = [digit_char (n div 10), digit_char (n mod 10)]"
  by (subst digits_of.simps) (simp add: digits_of_digit)

lemma has_value_iff: "has_value x \<longleftrightarrow> x \<noteq> None"
  by (cases x) (simp_all add: has_value_def)

lemma worker_rated_movies_length: "length (worker_rated_movies db) = worker_history_size db"
  by (simp add: worker_rated_movies_def worker_history_size_def has_value_iff)

lemma api_rated_movies_length: "length (api_rated_movies db) = api_history_size db"
  by (simp add: api_rated_movies_def api_history_size_def has_value_iff)

text \<open>
  C9. When the history holds fewer rated movies than the minimum sample size of 20, both
  \<open>calculateTasteProfile\<close> functions of the discovered variant return the error object
  with the observed count and the required minimum: no profile, no exception, and the
  database is left as it was.
\<close>

theorem insufficient_data_is_reported:
  "MIN_SAMPLE_SIZE = 20 \<and>
   (worker_history_size db < MIN_SAMPLE_SIZE \<longrightarrow>
      worker_calculateTasteProfile db reply e =
        (Inr (InsufficientData
           \<lparr>error_message = ''Insufficient data: need at least 20 rated movies, found ''
               @ digits_of (worker_history_size db),
            sample_size = worker_history_size db, required = 20\<rparr>), db)) \<and>
   (api_history_size adb < MIN_SAMPLE_SIZE \<longrightarrow>
      api_calculateTasteProfile adb areply e =
        (Inr (InsufficientData
           \<lparr>error_message = ''Insufficient data for taste profile calculation'',
            sample_size = api_history_size adb, required = 20\<rparr>), adb))"
proof (intro conjI impI)
  show min: "MIN_SAMPLE_SIZE = 20" by (simp add: MIN_SAMPLE_SIZE_def)
  have twenty: "digits_of MIN_SAMPLE_SIZE = ''20''"
    by (simp add: min digits_of_two_digits digit_char_def)
  show "worker_calculateTasteProfile db reply e =
        (Inr (InsufficientData
           \<lparr>error_message = ''Insufficient data: need at least 20 rated movies, found ''
               @ digits_of (worker_history_size db),
            sample_size = worker_history_size db, required = 20\<rparr>), db)"
    if "worker_history_size db < MIN_SAMPLE_SIZE"
    using that
    by (simp add: worker_calculateTasteProfile_def Let_def worker_rated_movies_length twenty)
       (simp add: min)
  show "api_calculateTasteProfile adb areply e =
        (Inr (InsufficientData
           \<lparr>error_message = ''Insufficient data for taste profile calculation'',
            sample_size = api_history_size adb, required = 20\<rparr>), adb)"
    if "api_history_size adb < MIN_SAMPLE_SIZE"
    using that
    by (simp add: api_calculateTasteProfile_def Let_def api_rated_movies_length)
       (simp add: min)
qed

lemma ten_rated_sizes:
  "worker_history_size ten_rated_worker_db = 10" "api_history_size ten_rated_api_db = 10"
  by (simp_all add: worker_history_size_def api_history_size_def ten_rated_worker_db_def
      ten_rated_api_db_def mk_worker_movie_def mk_api_movie_def comp_def)

theorem insufficient_data_is_reported_witness:
  "worker_calculateTasteProfile ten_rated_worker_db ThemesNoJson quiet_env =
     (Inr (InsufficientData
        \<lparr>error_message = ''Insufficient data: need at least 20 rated movies, found 10'',
         sample_size = 10, required = 20\<rparr>), ten_rated_worker_db) \<and>
   api_calculateTasteProfile ten_rated_api_db ThemeCallThrows quiet_env =
     (Inr (InsufficientData
        \<lparr>error_message = ''Insufficient data for taste profile calculation'',
         sample_size = 10, required = 20\<rparr>), ten_rated_api_db)"
  using insufficient_data_is_reported[of ten_rated_worker_db ThemesNoJson quiet_env
      ten_rated_api_db ThemeCallThrows]
  by (simp add: ten_rated_sizes digits_of_two_digits digit_char_def)

end
